theory Spec2Isabelle
  imports Complex_Main "HOL-Library.Word"
begin

unbundle bit_operations_syntax

section \<open>Floating-point values\<close>

text \<open>
  The sources are ISPC code over \<^verbatim>\<open>float\<close>. A value is either finite, and then carried
  as the real number it denotes, or one of the three special values of IEEE 754. The
  operations follow IEEE 754 on the special values (\<open>0 * inf\<close> and \<open>inf - inf\<close> are NaN,
  every comparison with NaN is false); on finite values they are exact, so rounding,
  overflow, underflow and the sign of zero are not represented. Equality in a theorem is
  identity of values, under which NaN is equal to itself; the sources compare floats with
  \<^verbatim>\<open><\<close>, \<^verbatim>\<open><=\<close> and \<^verbatim>\<open>>\<close> only. No theorem below that is stated
  for all inputs relies on the exactness of a finite sum or product: such a theorem either
  equates two terms built by the same operations or uses facts that rounding leaves alone,
  which are proved in a section of their own. The evaluations at given inputs are exact.
\<close>

datatype float = Fin real | PInf | NInf | NaN

instantiation float :: "{zero, one, plus, minus, uminus, times, ord, abs}"
begin

definition zero_float :: float where
  "zero_float = Fin 0"

definition one_float :: float where
  "one_float = Fin 1"

fun uminus_float :: "float \<Rightarrow> float" where
  "uminus_float (Fin a) = Fin (- a)"
| "uminus_float PInf = NInf"
| "uminus_float NInf = PInf"
| "uminus_float NaN = NaN"

fun plus_float :: "float \<Rightarrow> float \<Rightarrow> float" where
  "plus_float (Fin a) (Fin b) = Fin (a + b)"
| "plus_float (Fin a) PInf = PInf"
| "plus_float (Fin a) NInf = NInf"
| "plus_float PInf (Fin b) = PInf"
| "plus_float PInf PInf = PInf"
| "plus_float PInf NInf = NaN"
| "plus_float NInf (Fin b) = NInf"
| "plus_float NInf NInf = NInf"
| "plus_float NInf PInf = NaN"
| "plus_float NaN b = NaN"
| "plus_float a NaN = NaN"

definition minus_float :: "float \<Rightarrow> float \<Rightarrow> float" where
  "minus_float a b = a + (- b)"

fun times_float :: "float \<Rightarrow> float \<Rightarrow> float" where
  "times_float (Fin a) (Fin b) = Fin (a * b)"
| "times_float (Fin a) PInf = (if a = 0 then NaN else if 0 < a then PInf else NInf)"
| "times_float (Fin a) NInf = (if a = 0 then NaN else if 0 < a then NInf else PInf)"
| "times_float PInf (Fin b) = (if b = 0 then NaN else if 0 < b then PInf else NInf)"
| "times_float NInf (Fin b) = (if b = 0 then NaN else if 0 < b then NInf else PInf)"
| "times_float PInf PInf = PInf"
| "times_float PInf NInf = NInf"
| "times_float NInf PInf = NInf"
| "times_float NInf NInf = PInf"
| "times_float NaN b = NaN"
| "times_float a NaN = NaN"

fun less_eq_float :: "float \<Rightarrow> float \<Rightarrow> bool" where
  "less_eq_float (Fin a) (Fin b) = (a \<le> b)"
| "less_eq_float NaN b = False"
| "less_eq_float a NaN = False"
| "less_eq_float NInf b = True"
| "less_eq_float a PInf = True"
| "less_eq_float a NInf = False"
| "less_eq_float PInf b = False"

fun less_float :: "float \<Rightarrow> float \<Rightarrow> bool" where
  "less_float (Fin a) (Fin b) = (a < b)"
| "less_float NaN b = False"
| "less_float a NaN = False"
| "less_float PInf b = False"
| "less_float a NInf = False"
| "less_float NInf b = True"
| "less_float a PInf = True"

fun abs_float :: "float \<Rightarrow> float" where
  "abs_float (Fin a) = Fin \<bar>a\<bar>"
| "abs_float PInf = PInf"
| "abs_float NInf = PInf"
| "abs_float NaN = NaN"

instance ..

end

text \<open>
  ISPC's \<^verbatim>\<open>min(a, b)\<close> and \<^verbatim>\<open>max(a, b)\<close> on floats select with one ordered
  comparison, \<^verbatim>\<open>a < b ? a : b\<close> and \<^verbatim>\<open>a > b ? a : b\<close>: the second operand comes back
  when either is NaN.
\<close>

definition min_f :: "float \<Rightarrow> float \<Rightarrow> float" where
  "min_f a b = (if a < b then a else b)"

definition max_f :: "float \<Rightarrow> float \<Rightarrow> float" where
  "max_f a b = (if b < a then a else b)"

definition inf_f :: float where
  "inf_f = PInf"

fun isfinite :: "float \<Rightarrow> bool" where
  "isfinite (Fin a) = True"
| "isfinite PInf = False"
| "isfinite NInf = False"
| "isfinite NaN = False"

section \<open>Vectors, frames and result types\<close>

text \<open>
  Modelled from the spec: a direction is a 3-vector and the shading frame an orthonormal
  basis (tangent, bitangent, normal) that takes local directions to world space. The
  header \<^verbatim>\<open>math/vec.ih\<close>, which declares the vector types and their helpers, is
  included by the sources but is not among them. The helpers that the two scattering
  models call are the component-wise ones; \<^verbatim>\<open>reduce_max\<close> is the maximum channel, folded
  with \<^verbatim>\<open>max\<close> from the left; \<open>isfinite_v\<close> says that every channel is finite.
\<close>

record vec3f =
  vec_x :: float
  vec_y :: float
  vec_z :: float

type_synonym vec2f = "float \<times> float"

record linear3f =
  vx :: vec3f
  vy :: vec3f
  vz :: vec3f

definition make_vec3f :: "float \<Rightarrow> vec3f" where
  "make_vec3f a = \<lparr>vec_x = a, vec_y = a, vec_z = a\<rparr>"

definition dot :: "vec3f \<Rightarrow> vec3f \<Rightarrow> float" where
  "dot a b = vec_x a * vec_x b + vec_y a * vec_y b + vec_z a * vec_z b"

definition neg :: "vec3f \<Rightarrow> vec3f" where
  "neg a = \<lparr>vec_x = - vec_x a, vec_y = - vec_y a, vec_z = - vec_z a\<rparr>"

definition add_vv :: "vec3f \<Rightarrow> vec3f \<Rightarrow> vec3f" where
  "add_vv a b = \<lparr>vec_x = vec_x a + vec_x b, vec_y = vec_y a + vec_y b, vec_z = vec_z a + vec_z b\<rparr>"

definition mul_vf :: "vec3f \<Rightarrow> float \<Rightarrow> vec3f" where
  "mul_vf a f = \<lparr>vec_x = vec_x a * f, vec_y = vec_y a * f, vec_z = vec_z a * f\<rparr>"

definition mul_lv :: "linear3f \<Rightarrow> vec3f \<Rightarrow> vec3f" where
  "mul_lv l v = add_vv (add_vv (mul_vf (vx l) (vec_x v)) (mul_vf (vy l) (vec_y v))) (mul_vf (vz l) (vec_z v))"

definition isfinite_v :: "vec3f \<Rightarrow> bool" where
  "isfinite_v a = (isfinite (vec_x a) \<and> isfinite (vec_y a) \<and> isfinite (vec_z a))"

definition reduce_max :: "vec3f \<Rightarrow> float" where
  "reduce_max v = max_f (max_f (vec_x v) (vec_y v)) (vec_z v)"

text \<open>
  Modelled from the spec: the lobe type is a bitmask of
  \<open>{diffuse, glossy, specular} \<times> {reflection, transmission}\<close>, one bit each. The
  \<^verbatim>\<open>#define\<close>s are in \<^verbatim>\<open>BSDF.ih\<close>, which is not among the sources; the models only
  test a type against \<^verbatim>\<open>BSDF_SPECULAR\<close>, the two specular bits.
\<close>

type_synonym BSDF_Type = "32 word"

definition BSDF_SPECULAR_REFLECTION :: BSDF_Type where
  "BSDF_SPECULAR_REFLECTION = 1"

definition BSDF_GLOSSY_REFLECTION :: BSDF_Type where
  "BSDF_GLOSSY_REFLECTION = 2"

definition BSDF_DIFFUSE_REFLECTION :: BSDF_Type where
  "BSDF_DIFFUSE_REFLECTION = 4"

definition BSDF_SPECULAR_TRANSMISSION :: BSDF_Type where
  "BSDF_SPECULAR_TRANSMISSION = 8"

definition BSDF_GLOSSY_TRANSMISSION :: BSDF_Type where
  "BSDF_GLOSSY_TRANSMISSION = 16"

definition BSDF_DIFFUSE_TRANSMISSION :: BSDF_Type where
  "BSDF_DIFFUSE_TRANSMISSION = 32"

definition BSDF_SPECULAR :: BSDF_Type where
  "BSDF_SPECULAR = BSDF_SPECULAR_REFLECTION OR BSDF_SPECULAR_TRANSMISSION"

record BSDF_EvalRes =
  value_e :: vec3f
  pdf_e :: float

record BSDF_SampleRes =
  wi :: vec3f
  weight_s :: vec3f
  pdf_s :: float
  type_s :: BSDF_Type

text \<open>
  Modelled from the spec: an evaluation result is a value and a density, a sample result
  a direction, a weight, a density and a lobe type (the two records above); the zero
  evaluation has value and density zero; a sample is void when the maximum channel of its
  weight is at most zero, and the void sentinel is the sample whose weight is zero (its
  other fields are zero here). The constructors of the two sentinels are in
  \<^verbatim>\<open>BSDF.ih\<close>.
\<close>

definition make_BSDF_EvalRes_zero :: BSDF_EvalRes where
  "make_BSDF_EvalRes_zero = \<lparr>value_e = make_vec3f 0, pdf_e = 0\<rparr>"

definition make_BSDF_SampleRes_zero :: BSDF_SampleRes where
  "make_BSDF_SampleRes_zero =
     \<lparr>wi = make_vec3f 0, weight_s = make_vec3f 0, pdf_s = 0, type_s = 0\<rparr>"

definition is_void :: "BSDF_SampleRes \<Rightarrow> bool" where
  "is_void res = (reduce_max (weight_s res) \<le> 0)"

text \<open>
  Modelled from the spec: a BSDF node combines a shading frame, a type bitmask and an
  approximate albedo with the parameters of its model, and implements \<^verbatim>\<open>eval\<close> and
  \<^verbatim>\<open>sample\<close>. \<^verbatim>\<open>struct BSDF\<close> is declared in \<^verbatim>\<open>BSDF.ih\<close>; \<open>BSDF\<close> holds the data
  members every model starts with. The two function pointers take the object itself as
  their first argument; a \<open>BSDF_ref\<close> is what a \<^verbatim>\<open>BSDF*\<close> is to its caller, the members
  together with the two functions already applied to their object. \<^verbatim>\<open>getN\<close> is the
  normal of the frame, its third axis.
\<close>

record BSDF =
  albedo :: vec3f
  bsdf_type :: BSDF_Type
  frame :: linear3f

record BSDF_ref = BSDF +
  bsdf_eval :: "vec3f \<Rightarrow> vec3f \<Rightarrow> BSDF_EvalRes"
  bsdf_sample :: "vec3f \<Rightarrow> vec2f \<Rightarrow> float \<Rightarrow> BSDF_SampleRes"

definition getN :: "BSDF \<Rightarrow> vec3f" where
  "getN super = vz (frame super)"

definition getFrame :: "BSDF \<Rightarrow> linear3f" where
  "getFrame super = frame super"

section \<open>Functions of the renderer that the sources only call\<close>

text \<open>
  The directional-albedo table, the sheen distribution and its shadowing term, the
  Fresnel formula, hemisphere sampling, \<^verbatim>\<open>normalize\<close> and \<^verbatim>\<open>reflect\<close> are defined in
  files that are not among the sources, and \<^verbatim>\<open>rcp\<close> and \<^verbatim>\<open>expf\<close> are approximate
  library functions. The models take them as a parameter, so every theorem holds for
  whatever these functions compute unless it names a hypothesis on them.
  \<open>fresnelDielectricEx\<close> returns the reflectance together with the cosine it writes
  through its reference argument. A \<^verbatim>\<open>SheenDistribution\<close> is what its constructor is
  given, the parameter derived from the roughness.
\<close>

datatype SheenDistribution = make_SheenDistribution float

record externals =
  MicrofacetSheenAlbedoTable_eval :: "float \<Rightarrow> float \<Rightarrow> float"
  SheenDistribution_eval :: "SheenDistribution \<Rightarrow> float \<Rightarrow> float"
  evalG2 :: "SheenDistribution \<Rightarrow> float \<Rightarrow> float \<Rightarrow> float \<Rightarrow> float \<Rightarrow> float"
  normalize_v :: "vec3f \<Rightarrow> vec3f"
  uniformSampleHemisphere :: "vec2f \<Rightarrow> vec3f"
  uniformSampleHemispherePDF :: float
  fresnelDielectricEx :: "float \<Rightarrow> float \<Rightarrow> float \<times> float"
  reflect :: "vec3f \<Rightarrow> vec3f \<Rightarrow> float \<Rightarrow> vec3f"
  rcp :: "float \<Rightarrow> float"
  expf :: "float \<Rightarrow> float"

definition expf_v :: "externals \<Rightarrow> vec3f \<Rightarrow> vec3f" where
  "expf_v ext a = \<lparr>vec_x = expf ext (vec_x a), vec_y = expf ext (vec_y a), vec_z = expf ext (vec_z a)\<rparr>"

section \<open>Thin dielectric\<close>

record ThinDielectric =
  super_td :: BSDF
  eta :: float
  attenuation :: vec3f

definition ThinDielectric_eval :: "ThinDielectric \<Rightarrow> vec3f \<Rightarrow> vec3f \<Rightarrow> BSDF_EvalRes" where
  "ThinDielectric_eval self wo wi' = make_BSDF_EvalRes_zero"

definition ThinDielectric_sample ::
  "externals \<Rightarrow> ThinDielectric \<Rightarrow> vec3f \<Rightarrow> vec2f \<Rightarrow> float \<Rightarrow> BSDF_SampleRes" where
  "ThinDielectric_sample ext self wo s ss =
     (let cosThetaO = max_f (dot wo (getN (super_td self))) 0;
          (F, cosThetaT) = fresnelDielectricEx ext cosThetaO (eta self);
          doReflection = (ss \<le> F)
      in if doReflection
         then \<lparr>wi = reflect ext wo (getN (super_td self)) cosThetaO,
               weight_s = make_vec3f 1,
               pdf_s = inf_f,
               type_s = BSDF_SPECULAR_REFLECTION\<rparr>
         else let length = rcp ext cosThetaT;
                  A = expf_v ext (mul_vf (attenuation self) length)
              in \<lparr>wi = neg wo,
                  weight_s = A,
                  pdf_s = inf_f,
                  type_s = BSDF_SPECULAR_TRANSMISSION\<rparr>)"

definition ThinDielectric_Constructor ::
  "externals \<Rightarrow> linear3f \<Rightarrow> float \<Rightarrow> vec3f \<Rightarrow> ThinDielectric" where
  "ThinDielectric_Constructor ext frame' eta' attenuation' =
     \<lparr>super_td = \<lparr>albedo = expf_v ext attenuation', bsdf_type = BSDF_SPECULAR, frame = frame'\<rparr>,
      eta = eta',
      attenuation = attenuation'\<rparr>"

definition ThinDielectric_create ::
  "externals \<Rightarrow> linear3f \<Rightarrow> float \<Rightarrow> vec3f \<Rightarrow> BSDF_ref" where
  "ThinDielectric_create ext frame' eta' attenuation' =
     (let self = ThinDielectric_Constructor ext frame' eta' attenuation'
      in BSDF.extend (super_td self)
           (BSDF_ref.fields (ThinDielectric_eval self) (ThinDielectric_sample ext self)))"

definition ThinDielectric_getTransparency ::
  "externals \<Rightarrow> float \<Rightarrow> float \<Rightarrow> vec3f \<Rightarrow> vec3f" where
  "ThinDielectric_getTransparency ext cosThetaO eta' attenuation' =
     (let (F, cosThetaT) = fresnelDielectricEx ext cosThetaO eta';
          length = rcp ext cosThetaT;
          A = expf_v ext (mul_vf attenuation' length)
      in mul_vf A (1 - F))"

section \<open>Microfacet sheen layer\<close>

record MicrofacetSheenLayer =
  super :: BSDF
  substrate :: BSDF_ref
  R :: vec3f
  microfacet :: SheenDistribution
  roughness :: float
  weight :: float

definition MicrofacetSheenLayer_eval ::
  "externals \<Rightarrow> MicrofacetSheenLayer \<Rightarrow> vec3f \<Rightarrow> vec3f \<Rightarrow> BSDF_EvalRes" where
  "MicrofacetSheenLayer_eval ext self wo wi' =
     (let cosThetaO = dot wo (getN (super self))
      in if cosThetaO \<le> 0 then make_BSDF_EvalRes_zero
         else
           let cosThetaI = dot wi' (getN (super self));
               substrate0 = bsdf_eval (substrate self) wo wi';
               Ro = MicrofacetSheenAlbedoTable_eval ext cosThetaO (roughness self) * weight self;
               Ri = MicrofacetSheenAlbedoTable_eval ext \<bar>cosThetaI\<bar> (roughness self) * weight self;
               T = min_f (1 - Ro) (1 - Ri);
               substrate1 = substrate0\<lparr>value_e := mul_vf (value_e substrate0) T\<rparr>;
               coatPickProb = Ro;
               substratePickProb = 1 - coatPickProb
           in if 0 < cosThetaI
              then
                let wh = normalize_v ext (add_vv wo wi');
                    cosThetaH = dot wh (getN (super self));
                    cosThetaOH = dot wo wh;
                    cosThetaIH = dot wi' wh;
                    D = SheenDistribution_eval ext (microfacet self) cosThetaH;
                    G = evalG2 ext (microfacet self) cosThetaO cosThetaI cosThetaOH cosThetaIH;
                    coat = \<lparr>value_e = mul_vf (R self) (D * G * rcp ext (Fin 4 * cosThetaO) * weight self),
                            pdf_e = uniformSampleHemispherePDF ext\<rparr>
                in \<lparr>value_e = add_vv (value_e coat) (value_e substrate1),
                    pdf_e = coatPickProb * pdf_e coat + substratePickProb * pdf_e substrate1\<rparr>
              else substrate1\<lparr>pdf_e := pdf_e substrate1 * substratePickProb\<rparr>)"

text \<open>
  Lines 214 to 254 of the sample routine, which both the coat branch and the substrate
  branch run into: the attenuation of the substrate's contribution and the three exits.
\<close>

definition MicrofacetSheenLayer_sample_exit ::
  "externals \<Rightarrow> MicrofacetSheenLayer \<Rightarrow> vec3f \<Rightarrow> float \<Rightarrow> BSDF_SampleRes \<Rightarrow> BSDF_EvalRes
     \<Rightarrow> BSDF_SampleRes" where
  "MicrofacetSheenLayer_sample_exit ext self wo Ro res substrate0 =
     (let cosThetaO = dot wo (getN (super self));
          coatPickProb = Ro;
          substratePickProb = 1 - coatPickProb;
          cosThetaI = dot (wi res) (getN (super self));
          Ri = MicrofacetSheenAlbedoTable_eval ext \<bar>cosThetaI\<bar> (roughness self) * weight self;
          T = min_f (1 - Ro) (1 - Ri);
          substrate1 = substrate0\<lparr>value_e := mul_vf (value_e substrate0) T\<rparr>
      in if type_s res AND BSDF_SPECULAR \<noteq> 0
         then res\<lparr>weight_s := mul_vf (value_e substrate1) (rcp ext substratePickProb)\<rparr>
         else if cosThetaI \<le> 0
         then
           let res1 = res\<lparr>pdf_s := substratePickProb * pdf_e substrate1\<rparr>
           in res1\<lparr>weight_s := mul_vf (value_e substrate1) (rcp ext (pdf_s res1))\<rparr>
         else
           let wh = normalize_v ext (add_vv wo (wi res));
               cosThetaH = dot wh (getN (super self));
               cosThetaOH = dot wo wh;
               cosThetaIH = dot (wi res) wh;
               D = SheenDistribution_eval ext (microfacet self) cosThetaH;
               G = evalG2 ext (microfacet self) cosThetaO cosThetaI cosThetaOH cosThetaIH;
               coat = \<lparr>value_e = mul_vf (R self) (D * G * rcp ext (Fin 4 * cosThetaO) * weight self),
                       pdf_e = uniformSampleHemispherePDF ext\<rparr>;
               res1 = res\<lparr>pdf_s := coatPickProb * pdf_e coat + substratePickProb * pdf_e substrate1\<rparr>
           in res1\<lparr>weight_s := mul_vf (add_vv (value_e coat) (value_e substrate1)) (rcp ext (pdf_s res1))\<rparr>)"

text \<open>
  \<^verbatim>\<open>BSDF_SampleRes res;\<close> is declared without an initialiser. The coat branch sets its
  type and direction only; weight and density are written on both exits that a
  non-specular type can reach. The record the coat branch starts from therefore only
  needs some contents, and the zero sentinel's are taken.
\<close>

definition MicrofacetSheenLayer_sample ::
  "externals \<Rightarrow> MicrofacetSheenLayer \<Rightarrow> vec3f \<Rightarrow> vec2f \<Rightarrow> float \<Rightarrow> BSDF_SampleRes" where
  "MicrofacetSheenLayer_sample ext self wo s ss =
     (let cosThetaO = dot wo (getN (super self))
      in if cosThetaO \<le> 0 then make_BSDF_SampleRes_zero
         else
           let Ro = MicrofacetSheenAlbedoTable_eval ext cosThetaO (roughness self) * weight self;
               coatPickProb = Ro;
               substratePickProb = 1 - coatPickProb
           in if ss < coatPickProb
              then
                let res = make_BSDF_SampleRes_zero
                            \<lparr>type_s := BSDF_DIFFUSE_REFLECTION,
                             wi := mul_lv (getFrame (super self)) (uniformSampleHemisphere ext s)\<rparr>;
                    substrate0 = bsdf_eval (substrate self) wo (wi res)
                in MicrofacetSheenLayer_sample_exit ext self wo Ro res substrate0
              else
                let ss1 = (ss - coatPickProb) * rcp ext substratePickProb;
                    res = bsdf_sample (substrate self) wo s ss1
                in if reduce_max (weight_s res) \<le> 0 then res
                   else
                     let substrate0 =
                           \<lparr>value_e = mul_vf (weight_s res)
                                        (if type_s res AND BSDF_SPECULAR \<noteq> 0 then 1 else pdf_s res),
                            pdf_e = pdf_s res\<rparr>
                     in MicrofacetSheenLayer_sample_exit ext self wo Ro res substrate0)"

definition MicrofacetSheenLayer_getTransparency ::
  "externals \<Rightarrow> float \<Rightarrow> float \<Rightarrow> float \<Rightarrow> vec3f" where
  "MicrofacetSheenLayer_getTransparency ext cosThetaO roughness' weight' =
     (let Ro = MicrofacetSheenAlbedoTable_eval ext cosThetaO roughness' * weight';
          T = 1 - Ro
      in make_vec3f T)"

section \<open>The quantities of the layer\<close>

text \<open>
  Names for the terms that the evaluation and the sample routine both compute: the cosine
  of a direction with the normal, the scaled table lookups \<open>Ro\<close> and \<open>Ri\<close>, the
  attenuation \<open>T\<close>, the value of the coat lobe, the direction the coat branch samples
  and the result of the substrate's sample routine at the remapped random number.
\<close>

definition cosTheta :: "MicrofacetSheenLayer \<Rightarrow> vec3f \<Rightarrow> float" where
  "cosTheta self w = dot w (getN (super self))"

definition Ro_at :: "externals \<Rightarrow> MicrofacetSheenLayer \<Rightarrow> vec3f \<Rightarrow> float" where
  "Ro_at ext self wo = MicrofacetSheenAlbedoTable_eval ext (cosTheta self wo) (roughness self) * weight self"

definition Ri_at :: "externals \<Rightarrow> MicrofacetSheenLayer \<Rightarrow> vec3f \<Rightarrow> float" where
  "Ri_at ext self wi' = MicrofacetSheenAlbedoTable_eval ext \<bar>cosTheta self wi'\<bar> (roughness self) * weight self"

definition T_at :: "externals \<Rightarrow> MicrofacetSheenLayer \<Rightarrow> vec3f \<Rightarrow> vec3f \<Rightarrow> float" where
  "T_at ext self wo wi' = min_f (1 - Ro_at ext self wo) (1 - Ri_at ext self wi')"

definition coat_value :: "externals \<Rightarrow> MicrofacetSheenLayer \<Rightarrow> vec3f \<Rightarrow> vec3f \<Rightarrow> vec3f" where
  "coat_value ext self wo wi' =
     (let wh = normalize_v ext (add_vv wo wi');
          D = SheenDistribution_eval ext (microfacet self) (dot wh (getN (super self)));
          G = evalG2 ext (microfacet self) (cosTheta self wo) (cosTheta self wi') (dot wo wh) (dot wi' wh)
      in mul_vf (R self) (D * G * rcp ext (Fin 4 * cosTheta self wo) * weight self))"

definition coat_wi :: "externals \<Rightarrow> MicrofacetSheenLayer \<Rightarrow> vec2f \<Rightarrow> vec3f" where
  "coat_wi ext self s = mul_lv (getFrame (super self)) (uniformSampleHemisphere ext s)"

definition substrate_res :: "externals \<Rightarrow> MicrofacetSheenLayer \<Rightarrow> vec3f \<Rightarrow> vec2f \<Rightarrow> float \<Rightarrow> BSDF_SampleRes" where
  "substrate_res ext self wo s ss =
     bsdf_sample (substrate self) wo s
       ((ss - Ro_at ext self wo) * rcp ext (1 - Ro_at ext self wo))"

section \<open>Concrete inputs\<close>

text \<open>
  Instances of the parameter record for evaluating the models at given arguments: the
  exact functions that \<^verbatim>\<open>rcp\<close>, \<^verbatim>\<open>expf\<close>, the Fresnel formula, \<^verbatim>\<open>reflect\<close> and
  uniform hemisphere sampling approximate, and a table, distribution and shadowing term
  that are constant.
\<close>

fun rcp_exact :: "float \<Rightarrow> float" where
  "rcp_exact (Fin a) = (if a = 0 then PInf else Fin (1 / a))"
| "rcp_exact PInf = Fin 0"
| "rcp_exact NInf = Fin 0"
| "rcp_exact NaN = NaN"

fun expf_exact :: "float \<Rightarrow> float" where
  "expf_exact (Fin a) = Fin (exp a)"
| "expf_exact PInf = PInf"
| "expf_exact NInf = Fin 0"
| "expf_exact NaN = NaN"

fun sqrt_exact :: "float \<Rightarrow> float" where
  "sqrt_exact (Fin a) = (if a < 0 then NaN else Fin (sqrt a))"
| "sqrt_exact PInf = PInf"
| "sqrt_exact NInf = NaN"
| "sqrt_exact NaN = NaN"

definition fresnelDielectricEx_exact :: "float \<Rightarrow> float \<Rightarrow> float \<times> float" where
  "fresnelDielectricEx_exact cosI eta' =
     (let sqrCosT = 1 - eta' * eta' * (1 - cosI * cosI)
      in if sqrCosT < 0 then (1, 0)
         else
           let cosT = sqrt_exact sqrCosT;
               Rper = (eta' * cosI - cosT) * rcp_exact (eta' * cosI + cosT);
               Rpar = (cosI - eta' * cosT) * rcp_exact (cosI + eta' * cosT)
           in (Fin (1 / 2) * (Rpar * Rpar + Rper * Rper), cosT))"

definition reflect_exact :: "vec3f \<Rightarrow> vec3f \<Rightarrow> float \<Rightarrow> vec3f" where
  "reflect_exact v n c = add_vv (mul_vf n (Fin 2 * c)) (neg v)"

fun uniformSampleHemisphere_exact :: "vec2f \<Rightarrow> vec3f" where
  "uniformSampleHemisphere_exact (Fin a, Fin b) =
     \<lparr>vec_x = Fin (cos (2 * pi * a) * sqrt (1 - b * b)),
      vec_y = Fin (sin (2 * pi * a) * sqrt (1 - b * b)),
      vec_z = Fin b\<rparr>"
| "uniformSampleHemisphere_exact s = make_vec3f NaN"

definition ext0 :: externals where
  "ext0 =
     \<lparr>MicrofacetSheenAlbedoTable_eval = (\<lambda>c r. Fin (1 / 2)),
      SheenDistribution_eval = (\<lambda>m c. 1),
      evalG2 = (\<lambda>m cO cI cOH cIH. 1),
      normalize_v = (\<lambda>v. v),
      uniformSampleHemisphere = uniformSampleHemisphere_exact,
      uniformSampleHemispherePDF = Fin (1 / (2 * pi)),
      fresnelDielectricEx = fresnelDielectricEx_exact,
      reflect = reflect_exact,
      rcp = rcp_exact,
      expf = expf_exact\<rparr>"

definition vec :: "real \<Rightarrow> real \<Rightarrow> real \<Rightarrow> vec3f" where
  "vec a b c = \<lparr>vec_x = Fin a, vec_y = Fin b, vec_z = Fin c\<rparr>"

definition frame0 :: linear3f where
  "frame0 = \<lparr>vx = vec 1 0 0, vy = vec 0 1 0, vz = vec 0 0 1\<rparr>"

text \<open>Lossless glass of index 1.5, as a model and as the substrate of a layer.\<close>

definition glass :: ThinDielectric where
  "glass = ThinDielectric_Constructor ext0 frame0 (Fin (3 / 2)) (make_vec3f 0)"

definition glass_ref :: BSDF_ref where
  "glass_ref = ThinDielectric_create ext0 frame0 (Fin (3 / 2)) (make_vec3f 0)"

text \<open>Glass whose attenuation colour is black: the logarithm of zero in every channel.\<close>

definition black_glass :: ThinDielectric where
  "black_glass = ThinDielectric_Constructor ext0 frame0 (Fin (3 / 2)) (make_vec3f NInf)"

definition black_glass_ref :: BSDF_ref where
  "black_glass_ref = ThinDielectric_create ext0 frame0 (Fin (3 / 2)) (make_vec3f NInf)"

text \<open>
  The same parameters with a distribution, a shadowing term and a \<^verbatim>\<open>normalize\<close> that
  return NaN, and with a table that is zero.
\<close>

definition ext_nan_coat :: externals where
  "ext_nan_coat =
     ext0\<lparr>SheenDistribution_eval := (\<lambda>m c. NaN),
          evalG2 := (\<lambda>m cO cI cOH cIH. NaN),
          normalize_v := (\<lambda>v. make_vec3f NaN)\<rparr>"

definition ext_zero_table :: externals where
  "ext_zero_table = ext0\<lparr>MicrofacetSheenAlbedoTable_eval := (\<lambda>c r. 0)\<rparr>"

text \<open>
  A diffuse substrate that samples one fixed direction with density one half and
  evaluates to the same density everywhere, so that its sample and its evaluation agree:
  a reflecting one that samples the normal and a translucent one that samples its
  opposite.
\<close>

definition constant_ref :: "vec3f \<Rightarrow> BSDF_Type \<Rightarrow> BSDF_ref" where
  "constant_ref d ty =
     \<lparr>albedo = make_vec3f 1, bsdf_type = ty, frame = frame0,
      bsdf_eval = (\<lambda>wo wi'. \<lparr>value_e = make_vec3f (Fin (1 / 2)), pdf_e = Fin (1 / 2)\<rparr>),
      bsdf_sample = (\<lambda>wo s ss. \<lparr>wi = d, weight_s = make_vec3f 1, pdf_s = Fin (1 / 2), type_s = ty\<rparr>)\<rparr>"

definition matte_ref :: BSDF_ref where
  "matte_ref = constant_ref (vec 0 0 1) BSDF_DIFFUSE_REFLECTION"

definition translucent_ref :: BSDF_ref where
  "translucent_ref = constant_ref (vec 0 0 (- 1)) BSDF_DIFFUSE_TRANSMISSION"

text \<open>
  A cosine-weighted diffuse substrate: it samples \<open>(sqrt (1 - b), 0, sqrt b)\<close> from the
  second random number \<open>b\<close> (the first one taken as zero), reports the density
  \<open>cos / pi\<close> and returns its reflectance as the weight.
\<close>

definition lambert_ref :: BSDF_ref where
  "lambert_ref =
     \<lparr>albedo = make_vec3f 1, bsdf_type = BSDF_DIFFUSE_REFLECTION, frame = frame0,
      bsdf_eval = (\<lambda>wo wi'. let c = max_f (vec_z wi') 0
                             in \<lparr>value_e = make_vec3f (Fin (1 / pi) * c), pdf_e = Fin (1 / pi) * c\<rparr>),
      bsdf_sample = (\<lambda>wo s ss. let c = sqrt_exact (snd s)
                               in \<lparr>wi = \<lparr>vec_x = sqrt_exact (1 - snd s), vec_y = 0, vec_z = c\<rparr>,
                                   weight_s = make_vec3f 1,
                                   pdf_s = Fin (1 / pi) * c,
                                   type_s = BSDF_DIFFUSE_REFLECTION\<rparr>)\<rparr>"

text \<open>
  A reciprocal that is not exact: the quotient cut off after twelve binary places, so that
  \<open>rcp 3 = 1365 / 4096\<close> and \<open>rcp (3 / 2) = 1365 / 2048\<close>, while \<open>rcp (1 / 2) = 2\<close>. The
  products that the layer forms from these values have at most 23 significant bits, so
  binary32 computes them without rounding. With it comes a diffuse translucent substrate
  of density three that has \<open>value * rcp pdf = weight\<close> for this reciprocal.
\<close>

fun rcp_trunc12 :: "float \<Rightarrow> float" where
  "rcp_trunc12 (Fin a) = (if a = 0 then PInf else Fin (of_int \<lfloor>4096 / a\<rfloor> / 4096))"
| "rcp_trunc12 PInf = Fin 0"
| "rcp_trunc12 NInf = Fin 0"
| "rcp_trunc12 NaN = NaN"

definition ext_trunc12 :: externals where
  "ext_trunc12 = ext0\<lparr>rcp := rcp_trunc12\<rparr>"

definition dense_ref :: BSDF_ref where
  "dense_ref =
     \<lparr>albedo = make_vec3f 1, bsdf_type = BSDF_DIFFUSE_TRANSMISSION, frame = frame0,
      bsdf_eval = (\<lambda>wo wi'. \<lparr>value_e = make_vec3f 1, pdf_e = Fin 3\<rparr>),
      bsdf_sample = (\<lambda>wo s ss. \<lparr>wi = vec 0 0 (- 1), weight_s = make_vec3f (Fin (1365 / 4096)),
                                   pdf_s = Fin 3, type_s = BSDF_DIFFUSE_TRANSMISSION\<rparr>)\<rparr>"

definition sheen_over :: "BSDF_ref \<Rightarrow> float \<Rightarrow> MicrofacetSheenLayer" where
  "sheen_over sub w =
     \<lparr>super = \<lparr>albedo = albedo sub, bsdf_type = BSDF_DIFFUSE_REFLECTION OR bsdf_type sub,
                frame = frame0\<rparr>,
      substrate = sub,
      R = make_vec3f 1,
      microfacet = make_SheenDistribution (Fin (1 / 2)),
      roughness = Fin (1 / 2),
      weight = w\<rparr>"

section \<open>Facts about the arithmetic and the vectors\<close>

lemmas float_defs = zero_float_def one_float_def minus_float_def min_f_def max_f_def inf_f_def

lemmas vec_defs = make_vec3f_def dot_def neg_def add_vv_def mul_vf_def mul_lv_def reduce_max_def
  vec_def expf_v_def

lemmas type_defs = BSDF_SPECULAR_def BSDF_SPECULAR_REFLECTION_def BSDF_SPECULAR_TRANSMISSION_def
  BSDF_DIFFUSE_REFLECTION_def BSDF_DIFFUSE_TRANSMISSION_def

lemmas input_defs = ext0_def frame0_def glass_def glass_ref_def black_glass_def black_glass_ref_def ext_nan_coat_def ext_zero_table_def ext_trunc12_def dense_ref_def constant_ref_def matte_ref_def translucent_ref_def
  lambert_ref_def sheen_over_def ThinDielectric_Constructor_def ThinDielectric_create_def
  fresnelDielectricEx_exact_def reflect_exact_def getN_def getFrame_def
  BSDF.extend_def BSDF_ref.fields_def
  make_BSDF_EvalRes_zero_def make_BSDF_SampleRes_zero_def is_void_def

lemma float_less_not_le: "a < b \<Longrightarrow> \<not> b \<le> (a::float)"
  by (cases a; cases b) auto

lemma float_le_not_less: "a \<le> b \<Longrightarrow> \<not> b < (a::float)"
  by (cases a; cases b) auto

lemma max_f_clamp: "a \<le> 0 \<Longrightarrow> max_f a 0 = 0"
  by (simp add: max_f_def float_le_not_less)

section \<open>The branches of the layer\<close>

lemmas sheen_terms = cosTheta_def Ro_at_def Ri_at_def T_at_def coat_value_def

lemma diffuse_not_specular: "BSDF_DIFFUSE_REFLECTION AND BSDF_SPECULAR = 0"
  by (simp add: type_defs)

lemma eval_below: "cosTheta self wo \<le> 0 \<Longrightarrow> MicrofacetSheenLayer_eval ext self wo wi' = make_BSDF_EvalRes_zero"
  by (simp add: MicrofacetSheenLayer_eval_def cosTheta_def)

lemma eval_reflection:
  "\<not> cosTheta self wo \<le> 0 \<Longrightarrow> 0 < cosTheta self wi' \<Longrightarrow>
   MicrofacetSheenLayer_eval ext self wo wi' =
     \<lparr>value_e = add_vv (coat_value ext self wo wi')
                        (mul_vf (value_e (bsdf_eval (substrate self) wo wi')) (T_at ext self wo wi')),
      pdf_e = Ro_at ext self wo * uniformSampleHemispherePDF ext
              + (1 - Ro_at ext self wo) * pdf_e (bsdf_eval (substrate self) wo wi')\<rparr>"
  by (simp add: MicrofacetSheenLayer_eval_def sheen_terms Let_def)

lemma eval_transmission:
  "\<not> cosTheta self wo \<le> 0 \<Longrightarrow> \<not> 0 < cosTheta self wi' \<Longrightarrow>
   MicrofacetSheenLayer_eval ext self wo wi' =
     \<lparr>value_e = mul_vf (value_e (bsdf_eval (substrate self) wo wi')) (T_at ext self wo wi'),
      pdf_e = pdf_e (bsdf_eval (substrate self) wo wi') * (1 - Ro_at ext self wo)\<rparr>"
  by (simp add: MicrofacetSheenLayer_eval_def sheen_terms Let_def)

lemma exit_specular:
  "type_s res AND BSDF_SPECULAR \<noteq> 0 \<Longrightarrow>
   MicrofacetSheenLayer_sample_exit ext self wo (Ro_at ext self wo) res sub =
     res\<lparr>weight_s := mul_vf (mul_vf (value_e sub) (T_at ext self wo (wi res)))
                            (rcp ext (1 - Ro_at ext self wo))\<rparr>"
  by (simp add: MicrofacetSheenLayer_sample_exit_def sheen_terms Let_def)

lemma exit_transmission:
  "type_s res AND BSDF_SPECULAR = 0 \<Longrightarrow> cosTheta self (wi res) \<le> 0 \<Longrightarrow>
   MicrofacetSheenLayer_sample_exit ext self wo (Ro_at ext self wo) res sub =
     res\<lparr>pdf_s := (1 - Ro_at ext self wo) * pdf_e sub,
         weight_s := mul_vf (mul_vf (value_e sub) (T_at ext self wo (wi res)))
                            (rcp ext ((1 - Ro_at ext self wo) * pdf_e sub))\<rparr>"
  by (simp add: MicrofacetSheenLayer_sample_exit_def sheen_terms Let_def)

lemma exit_reflection:
  "type_s res AND BSDF_SPECULAR = 0 \<Longrightarrow> \<not> cosTheta self (wi res) \<le> 0 \<Longrightarrow>
   MicrofacetSheenLayer_sample_exit ext self wo (Ro_at ext self wo) res sub =
     res\<lparr>pdf_s := Ro_at ext self wo * uniformSampleHemispherePDF ext + (1 - Ro_at ext self wo) * pdf_e sub,
         weight_s := mul_vf (add_vv (coat_value ext self wo (wi res))
                                    (mul_vf (value_e sub) (T_at ext self wo (wi res))))
                            (rcp ext (Ro_at ext self wo * uniformSampleHemispherePDF ext
                                      + (1 - Ro_at ext self wo) * pdf_e sub))\<rparr>"
  by (simp add: MicrofacetSheenLayer_sample_exit_def sheen_terms Let_def)

lemma exit_overwrites:
  "type_s r AND BSDF_SPECULAR = 0 \<Longrightarrow>
   MicrofacetSheenLayer_sample_exit ext self wo Ro' (r\<lparr>weight_s := a, pdf_s := b\<rparr>) sub =
     MicrofacetSheenLayer_sample_exit ext self wo Ro' r sub"
  by (simp add: MicrofacetSheenLayer_sample_exit_def Let_def)




lemma sample_coat:
  "\<not> cosTheta self wo \<le> 0 \<Longrightarrow> ss < Ro_at ext self wo \<Longrightarrow>
   MicrofacetSheenLayer_sample ext self wo s ss =
     MicrofacetSheenLayer_sample_exit ext self wo (Ro_at ext self wo)
       \<lparr>wi = coat_wi ext self s, weight_s = make_vec3f 0, pdf_s = 0, type_s = BSDF_DIFFUSE_REFLECTION\<rparr>
       (bsdf_eval (substrate self) wo (coat_wi ext self s))"
  by (simp add: MicrofacetSheenLayer_sample_def sheen_terms coat_wi_def Let_def make_BSDF_SampleRes_zero_def)

lemma sample_substrate_void:
  "\<not> cosTheta self wo \<le> 0 \<Longrightarrow> \<not> ss < Ro_at ext self wo \<Longrightarrow>
   reduce_max (weight_s (substrate_res ext self wo s ss)) \<le> 0 \<Longrightarrow>
   MicrofacetSheenLayer_sample ext self wo s ss = substrate_res ext self wo s ss"
  by (simp add: MicrofacetSheenLayer_sample_def sheen_terms substrate_res_def Let_def)

lemma sample_substrate:
  "\<not> cosTheta self wo \<le> 0 \<Longrightarrow> \<not> ss < Ro_at ext self wo \<Longrightarrow>
   \<not> reduce_max (weight_s (substrate_res ext self wo s ss)) \<le> 0 \<Longrightarrow>
   MicrofacetSheenLayer_sample ext self wo s ss =
     MicrofacetSheenLayer_sample_exit ext self wo (Ro_at ext self wo) (substrate_res ext self wo s ss)
       \<lparr>value_e = mul_vf (weight_s (substrate_res ext self wo s ss))
                     (if type_s (substrate_res ext self wo s ss) AND BSDF_SPECULAR \<noteq> 0 then 1
                      else pdf_s (substrate_res ext self wo s ss)),
        pdf_e = pdf_s (substrate_res ext self wo s ss)\<rparr>"
  by (simp add: MicrofacetSheenLayer_sample_def sheen_terms substrate_res_def Let_def)

section \<open>Horizon rejection\<close>

text \<open>
  C1. With \<open>dot wo N \<le> 0\<close> the sheen layer's evaluation returns the zero result and its
  sample routine the void sentinel. The thin dielectric's evaluation returns the zero
  result for every pair of directions. The thin dielectric's sample routine has no
  horizon test: with \<open>dot wo N \<le> 0\<close> it clamps the cosine to zero and returns the
  specular sample that the Fresnel term at cosine zero selects.
\<close>

theorem horizon_rejection:
  "(dot wo (getN (super self)) \<le> 0 \<longrightarrow>
      MicrofacetSheenLayer_eval ext self wo wi' = make_BSDF_EvalRes_zero
    \<and> MicrofacetSheenLayer_sample ext self wo s ss = make_BSDF_SampleRes_zero
    \<and> is_void (MicrofacetSheenLayer_sample ext self wo s ss))
   \<and> ThinDielectric_eval td wo wi' = make_BSDF_EvalRes_zero
   \<and> (dot wo (getN (super_td td)) \<le> 0 \<longrightarrow>
        ThinDielectric_sample ext td wo s ss =
          (let (F, cosThetaT) = fresnelDielectricEx ext 0 (eta td)
           in if ss \<le> F
              then \<lparr>wi = reflect ext wo (getN (super_td td)) 0, weight_s = make_vec3f 1,
                    pdf_s = inf_f, type_s = BSDF_SPECULAR_REFLECTION\<rparr>
              else \<lparr>wi = neg wo, weight_s = expf_v ext (mul_vf (attenuation td) (rcp ext cosThetaT)),
                    pdf_s = inf_f, type_s = BSDF_SPECULAR_TRANSMISSION\<rparr>))"
proof -
  have e: "MicrofacetSheenLayer_eval ext self wo wi' = make_BSDF_EvalRes_zero"
    if "dot wo (getN (super self)) \<le> 0"
    using that by (simp add: MicrofacetSheenLayer_eval_def)
  have s: "MicrofacetSheenLayer_sample ext self wo s ss = make_BSDF_SampleRes_zero"
    if "dot wo (getN (super self)) \<le> 0"
    using that by (simp add: MicrofacetSheenLayer_sample_def)
  have v: "is_void make_BSDF_SampleRes_zero"
    by (simp add: is_void_def make_BSDF_SampleRes_zero_def reduce_max_def make_vec3f_def
        max_f_def zero_float_def)
  have t: "max_f (dot wo (getN (super_td td))) 0 = 0" if "dot wo (getN (super_td td)) \<le> 0"
    using that by (rule max_f_clamp)
  show ?thesis
    using e s v t by (simp add: ThinDielectric_eval_def ThinDielectric_sample_def Let_def split: prod.splits)
qed

theorem horizon_rejection_witness:
  "dot (vec 0 0 (- 1)) (getN (super (sheen_over glass_ref 1))) \<le> 0
   \<and> dot (vec 0 0 (- 1)) (getN (super_td glass)) \<le> 0
   \<and> MicrofacetSheenLayer_eval ext0 (sheen_over glass_ref 1) (vec 0 0 (- 1)) (vec 0 0 1) = make_BSDF_EvalRes_zero
   \<and> MicrofacetSheenLayer_sample ext0 (sheen_over glass_ref 1) (vec 0 0 (- 1)) (0, 0) (Fin (1 / 2)) = make_BSDF_SampleRes_zero
   \<and> ThinDielectric_eval glass (vec 0 0 (- 1)) (vec 0 0 1) = make_BSDF_EvalRes_zero
   \<and> ThinDielectric_sample ext0 glass (vec 0 0 (- 1)) (0, 0) (Fin (1 / 2)) =
        \<lparr>wi = vec 0 0 1, weight_s = make_vec3f 1, pdf_s = PInf, type_s = BSDF_SPECULAR_REFLECTION\<rparr>"
proof -
  have a: "dot (vec 0 0 (- 1)) (getN (super (sheen_over glass_ref 1))) \<le> 0"
    by (simp add: input_defs vec_defs float_defs)
  have b: "dot (vec 0 0 (- 1)) (getN (super_td glass)) \<le> 0"
    by (simp add: input_defs vec_defs float_defs)
  show ?thesis
    using a b horizon_rejection [where wo = "vec 0 0 (- 1)" and self = "sheen_over glass_ref 1"
        and td = glass and ext = ext0 and wi' = "vec 0 0 1" and s = "(0, 0)" and ss = "Fin (1 / 2)"]
    by (simp add: input_defs vec_defs float_defs Let_def)
qed

text \<open>
  The thin dielectric sampled from below the horizon: the reflectance at cosine zero is
  one, and the sample is the mirror direction with weight one, not the void sentinel.
\<close>

theorem thin_dielectric_sample_below_horizon:
  "dot (vec 0 0 (- 1)) (getN (super_td glass)) \<le> 0
   \<and> \<not> is_void (ThinDielectric_sample ext0 glass (vec 0 0 (- 1)) (0, 0) (Fin (1 / 2)))
   \<and> ThinDielectric_sample ext0 glass (vec 0 0 (- 1)) (0, 0) (Fin (1 / 2)) \<noteq> make_BSDF_SampleRes_zero"
  by (simp add: ThinDielectric_sample_def input_defs vec_defs float_defs type_defs Let_def)

section \<open>Thin dielectric sampling\<close>

text \<open>
  C4. The thin dielectric's sample routine reports the density \<open>+inf\<close>; with \<open>F\<close> the
  Fresnel reflectance at the clamped cosine, \<open>u \<le> F\<close> gives the mirror direction, tagged
  specular reflection, with weight \<open>(1, 1, 1)\<close>, and otherwise the result is \<open>- wo\<close>, tagged
  specular transmission, with weight \<open>expf (attenuation * rcp cosThetaT)\<close>.
\<close>

theorem thin_dielectric_sample_branches:
  assumes "fresnelDielectricEx ext (max_f (dot wo (getN (super_td self))) 0) (eta self) = (F, cosThetaT)"
  shows "pdf_s (ThinDielectric_sample ext self wo s ss) = PInf
       \<and> (ss \<le> F \<longrightarrow>
            wi (ThinDielectric_sample ext self wo s ss)
              = reflect ext wo (getN (super_td self)) (max_f (dot wo (getN (super_td self))) 0)
          \<and> type_s (ThinDielectric_sample ext self wo s ss) = BSDF_SPECULAR_REFLECTION
          \<and> weight_s (ThinDielectric_sample ext self wo s ss) = make_vec3f 1)
       \<and> (\<not> ss \<le> F \<longrightarrow>
            wi (ThinDielectric_sample ext self wo s ss) = neg wo
          \<and> type_s (ThinDielectric_sample ext self wo s ss) = BSDF_SPECULAR_TRANSMISSION
          \<and> weight_s (ThinDielectric_sample ext self wo s ss)
              = expf_v ext (mul_vf (attenuation self) (rcp ext cosThetaT)))"
  using assms by (simp add: ThinDielectric_sample_def Let_def inf_f_def)

theorem thin_dielectric_sample_branches_witness:
  "fresnelDielectricEx ext0 (max_f (dot (vec 0 0 1) (getN (super_td glass))) 0) (eta glass) = (Fin (1 / 25), Fin 1)
   \<and> Fin (1 / 100) \<le> Fin (1 / 25)
   \<and> \<not> Fin (1 / 2) \<le> Fin (1 / 25)
   \<and> ThinDielectric_sample ext0 glass (vec 0 0 1) (0, 0) (Fin (1 / 100))
       = \<lparr>wi = vec 0 0 1, weight_s = make_vec3f 1, pdf_s = PInf, type_s = BSDF_SPECULAR_REFLECTION\<rparr>
   \<and> ThinDielectric_sample ext0 glass (vec 0 0 1) (0, 0) (Fin (1 / 2))
       = \<lparr>wi = vec 0 0 (- 1), weight_s = make_vec3f 1, pdf_s = PInf, type_s = BSDF_SPECULAR_TRANSMISSION\<rparr>"
proof -
  have f: "fresnelDielectricEx ext0 (max_f (dot (vec 0 0 1) (getN (super_td glass))) 0) (eta glass)
             = (Fin (1 / 25), Fin 1)"
    by (simp add: input_defs vec_defs float_defs Let_def)
  show ?thesis
    using f thin_dielectric_sample_branches [OF f, of "(0, 0)" "Fin (1 / 100)"]
      thin_dielectric_sample_branches [OF f, of "(0, 0)" "Fin (1 / 2)"]
    by (simp add: ThinDielectric_sample_def input_defs vec_defs float_defs Let_def)
qed

section \<open>Evaluation of the layer\<close>

text \<open>
  C3. For \<open>wo\<close> and \<open>wi\<close> above the horizon the layer's evaluation returns the coat value
  plus the substrate's value attenuated by \<open>T = min (1 - Ro) (1 - Ri)\<close>, and the density
  \<open>coatPickProb * coatPdf + substratePickProb * substratePdf\<close> with \<open>coatPickProb = Ro\<close>,
  \<open>substratePickProb = 1 - Ro\<close> and the uniform hemisphere density as \<open>coatPdf\<close>; \<open>Ro\<close> and
  \<open>Ri\<close> are the table lookups at \<open>cosThetaO\<close> and \<open>|cosThetaI|\<close> times the blend weight.
\<close>

theorem sheen_eval_reflection:
  assumes "0 < dot wo (getN (super self))" and "0 < dot wi' (getN (super self))"
  shows "(let cosThetaO = dot wo (getN (super self));
              cosThetaI = dot wi' (getN (super self));
              Ro = MicrofacetSheenAlbedoTable_eval ext cosThetaO (roughness self) * weight self;
              Ri = MicrofacetSheenAlbedoTable_eval ext \<bar>cosThetaI\<bar> (roughness self) * weight self;
              T = min_f (1 - Ro) (1 - Ri);
              coatPickProb = Ro;
              substratePickProb = 1 - Ro;
              sub = bsdf_eval (substrate self) wo wi';
              wh = normalize_v ext (add_vv wo wi');
              D = SheenDistribution_eval ext (microfacet self) (dot wh (getN (super self)));
              G = evalG2 ext (microfacet self) cosThetaO cosThetaI (dot wo wh) (dot wi' wh);
              coatValue = mul_vf (R self) (D * G * rcp ext (Fin 4 * cosThetaO) * weight self);
              coatPdf = uniformSampleHemispherePDF ext
          in MicrofacetSheenLayer_eval ext self wo wi'
               = \<lparr>value_e = add_vv coatValue (mul_vf (value_e sub) T),
                  pdf_e = coatPickProb * coatPdf + substratePickProb * pdf_e sub\<rparr>)"
  using assms by (simp add: MicrofacetSheenLayer_eval_def Let_def float_less_not_le)

theorem sheen_eval_reflection_witness:
  "0 < dot (vec 0 0 1) (getN (super (sheen_over matte_ref 1)))
   \<and> MicrofacetSheenLayer_eval ext0 (sheen_over matte_ref 1) (vec 0 0 1) (vec 0 0 1)
       = \<lparr>value_e = make_vec3f (Fin (1 / 2)), pdf_e = Fin (1 / 2 * (1 / (2 * pi)) + 1 / 4)\<rparr>"
proof -
  have a: "0 < dot (vec 0 0 1) (getN (super (sheen_over matte_ref 1)))"
    by (simp add: input_defs vec_defs float_defs)
  show ?thesis
    using a sheen_eval_reflection [OF a a, of ext0]
    by (simp add: input_defs vec_defs float_defs Let_def)
qed

section \<open>Directions at or below the horizon\<close>

text \<open>
  C9. For \<open>wi\<close> at or below the horizon the layer's evaluation returns the substrate's
  contribution alone, with no coat term: its value attenuated by \<open>T\<close> and its density
  scaled by \<open>substratePickProb = 1 - Ro\<close>. In the matching exit of the sample routine
  (a sample that is not specular, with a direction at or below the horizon) the returned
  density is \<open>substratePickProb * substratePdf\<close> and the returned weight is the
  \<open>T\<close>-attenuated substrate value times the reciprocal of that density; the substrate's
  value and density are its evaluation at the sampled direction in the coat branch, and
  \<open>weight * pdf\<close> and \<open>pdf\<close> of its sample in the substrate branch.
\<close>

theorem sheen_transmission:
  assumes "0 < cosTheta self wo"
  shows "(cosTheta self wi' \<le> 0 \<longrightarrow>
            MicrofacetSheenLayer_eval ext self wo wi'
              = \<lparr>value_e = mul_vf (value_e (bsdf_eval (substrate self) wo wi')) (T_at ext self wo wi'),
                 pdf_e = pdf_e (bsdf_eval (substrate self) wo wi') * (1 - Ro_at ext self wo)\<rparr>)
       \<and> (ss < Ro_at ext self wo \<and> cosTheta self (coat_wi ext self s) \<le> 0 \<longrightarrow>
            MicrofacetSheenLayer_sample ext self wo s ss
              = \<lparr>wi = coat_wi ext self s,
                 weight_s = mul_vf (mul_vf (value_e (bsdf_eval (substrate self) wo (coat_wi ext self s)))
                                           (T_at ext self wo (coat_wi ext self s)))
                                   (rcp ext ((1 - Ro_at ext self wo)
                                             * pdf_e (bsdf_eval (substrate self) wo (coat_wi ext self s)))),
                 pdf_s = (1 - Ro_at ext self wo) * pdf_e (bsdf_eval (substrate self) wo (coat_wi ext self s)),
                 type_s = BSDF_DIFFUSE_REFLECTION\<rparr>)
       \<and> (\<not> ss < Ro_at ext self wo \<and> \<not> is_void (substrate_res ext self wo s ss)
            \<and> type_s (substrate_res ext self wo s ss) AND BSDF_SPECULAR = 0
            \<and> cosTheta self (wi (substrate_res ext self wo s ss)) \<le> 0 \<longrightarrow>
            MicrofacetSheenLayer_sample ext self wo s ss
              = \<lparr>wi = wi (substrate_res ext self wo s ss),
                 weight_s = mul_vf (mul_vf (mul_vf (weight_s (substrate_res ext self wo s ss))
                                                   (pdf_s (substrate_res ext self wo s ss)))
                                           (T_at ext self wo (wi (substrate_res ext self wo s ss))))
                                   (rcp ext ((1 - Ro_at ext self wo) * pdf_s (substrate_res ext self wo s ss))),
                 pdf_s = (1 - Ro_at ext self wo) * pdf_s (substrate_res ext self wo s ss),
                 type_s = type_s (substrate_res ext self wo s ss)\<rparr>)"
proof -
  have up: "\<not> cosTheta self wo \<le> 0"
    using assms by (rule float_less_not_le)
  have e: "cosTheta self wi' \<le> 0 \<Longrightarrow>
            MicrofacetSheenLayer_eval ext self wo wi'
              = \<lparr>value_e = mul_vf (value_e (bsdf_eval (substrate self) wo wi')) (T_at ext self wo wi'),
                 pdf_e = pdf_e (bsdf_eval (substrate self) wo wi') * (1 - Ro_at ext self wo)\<rparr>"
    using up by (simp add: eval_transmission float_le_not_less)
  have c: "ss < Ro_at ext self wo \<Longrightarrow> cosTheta self (coat_wi ext self s) \<le> 0 \<Longrightarrow>
            MicrofacetSheenLayer_sample ext self wo s ss
              = \<lparr>wi = coat_wi ext self s,
                 weight_s = mul_vf (mul_vf (value_e (bsdf_eval (substrate self) wo (coat_wi ext self s)))
                                           (T_at ext self wo (coat_wi ext self s)))
                                   (rcp ext ((1 - Ro_at ext self wo)
                                             * pdf_e (bsdf_eval (substrate self) wo (coat_wi ext self s)))),
                 pdf_s = (1 - Ro_at ext self wo) * pdf_e (bsdf_eval (substrate self) wo (coat_wi ext self s)),
                 type_s = BSDF_DIFFUSE_REFLECTION\<rparr>"
    using up by (simp add: sample_coat exit_transmission diffuse_not_specular)
  have t: "\<not> ss < Ro_at ext self wo \<Longrightarrow> \<not> is_void (substrate_res ext self wo s ss) \<Longrightarrow>
            type_s (substrate_res ext self wo s ss) AND BSDF_SPECULAR = 0 \<Longrightarrow>
            cosTheta self (wi (substrate_res ext self wo s ss)) \<le> 0 \<Longrightarrow>
            MicrofacetSheenLayer_sample ext self wo s ss
              = \<lparr>wi = wi (substrate_res ext self wo s ss),
                 weight_s = mul_vf (mul_vf (mul_vf (weight_s (substrate_res ext self wo s ss))
                                                   (pdf_s (substrate_res ext self wo s ss)))
                                           (T_at ext self wo (wi (substrate_res ext self wo s ss))))
                                   (rcp ext ((1 - Ro_at ext self wo) * pdf_s (substrate_res ext self wo s ss))),
                 pdf_s = (1 - Ro_at ext self wo) * pdf_s (substrate_res ext self wo s ss),
                 type_s = type_s (substrate_res ext self wo s ss)\<rparr>"
    using up by (simp add: sample_substrate exit_transmission is_void_def)
  show ?thesis
    using e c t by blast
qed

theorem sheen_transmission_witness:
  "0 < cosTheta (sheen_over translucent_ref (Fin 1)) (vec 0 0 1)
   \<and> cosTheta (sheen_over translucent_ref (Fin 1)) (vec 0 0 (- 1)) \<le> 0
   \<and> MicrofacetSheenLayer_eval ext0 (sheen_over translucent_ref (Fin 1)) (vec 0 0 1) (vec 0 0 (- 1))
       = \<lparr>value_e = make_vec3f (Fin (1 / 4)), pdf_e = Fin (1 / 4)\<rparr>
   \<and> Fin (1 / 4) < Ro_at ext0 (sheen_over translucent_ref (Fin 1)) (vec 0 0 1)
   \<and> cosTheta (sheen_over translucent_ref (Fin 1)) (coat_wi ext0 (sheen_over translucent_ref (Fin 1)) (0, 0)) \<le> 0
   \<and> MicrofacetSheenLayer_sample ext0 (sheen_over translucent_ref (Fin 1)) (vec 0 0 1) (0, 0) (Fin (1 / 4))
       = \<lparr>wi = vec 1 0 0, weight_s = make_vec3f 1, pdf_s = Fin (1 / 4), type_s = BSDF_DIFFUSE_REFLECTION\<rparr>
   \<and> \<not> Fin (3 / 4) < Ro_at ext0 (sheen_over translucent_ref (Fin 1)) (vec 0 0 1)
   \<and> \<not> is_void (substrate_res ext0 (sheen_over translucent_ref (Fin 1)) (vec 0 0 1) (0, 0) (Fin (3 / 4)))
   \<and> type_s (substrate_res ext0 (sheen_over translucent_ref (Fin 1)) (vec 0 0 1) (0, 0) (Fin (3 / 4)))
         AND BSDF_SPECULAR = 0
   \<and> cosTheta (sheen_over translucent_ref (Fin 1))
         (wi (substrate_res ext0 (sheen_over translucent_ref (Fin 1)) (vec 0 0 1) (0, 0) (Fin (3 / 4)))) \<le> 0
   \<and> MicrofacetSheenLayer_sample ext0 (sheen_over translucent_ref (Fin 1)) (vec 0 0 1) (0, 0) (Fin (3 / 4))
       = \<lparr>wi = vec 0 0 (- 1), weight_s = make_vec3f 1, pdf_s = Fin (1 / 4),
          type_s = BSDF_DIFFUSE_TRANSMISSION\<rparr>"
proof -
  let ?L = "sheen_over translucent_ref (Fin 1)"
  have a: "0 < cosTheta ?L (vec 0 0 1)"
    by (simp add: cosTheta_def input_defs vec_defs float_defs)
  have b: "cosTheta ?L (vec 0 0 (- 1)) \<le> 0"
    by (simp add: cosTheta_def input_defs vec_defs float_defs)
  have R: "Ro_at ext0 ?L wo = Fin (1 / 2)" for wo
    by (simp add: sheen_terms input_defs float_defs)
  have T: "T_at ext0 ?L wo wi' = Fin (1 / 2)" for wo wi'
    by (simp add: sheen_terms input_defs float_defs)
  have w: "coat_wi ext0 ?L (0, 0) = vec 1 0 0"
    by (simp add: coat_wi_def input_defs vec_defs float_defs)
  have d: "cosTheta ?L (vec 1 0 0) \<le> 0"
    by (simp add: cosTheta_def input_defs vec_defs float_defs)
  have m: "bsdf_eval (substrate ?L) wo wi' = \<lparr>value_e = make_vec3f (Fin (1 / 2)), pdf_e = Fin (1 / 2)\<rparr>"
    for wo wi'
    by (simp add: input_defs)
  have q: "substrate_res ext0 ?L wo s ss
             = \<lparr>wi = vec 0 0 (- 1), weight_s = make_vec3f 1, pdf_s = Fin (1 / 2),
                type_s = BSDF_DIFFUSE_TRANSMISSION\<rparr>" for wo s ss
    by (simp add: substrate_res_def input_defs)
  have v: "\<not> is_void \<lparr>wi = vec 0 0 (- 1), weight_s = make_vec3f 1, pdf_s = Fin (1 / 2),
                type_s = BSDF_DIFFUSE_TRANSMISSION\<rparr>"
    by (simp add: is_void_def vec_defs float_defs)
  have n: "BSDF_DIFFUSE_TRANSMISSION AND BSDF_SPECULAR = 0"
    by (simp add: type_defs)
  have r: "rcp ext0 = rcp_exact"
    by (simp add: ext0_def)
  show ?thesis
    using a b d v n
      sheen_transmission [OF a, where wi' = "vec 0 0 (- 1)" and ss = "Fin (1 / 4)" and ext = ext0 and s = "(0, 0)"]
      sheen_transmission [OF a, where wi' = "vec 0 0 (- 1)" and ss = "Fin (3 / 4)" and ext = ext0 and s = "(0, 0)"]
    apply (simp only: w m q T R r)
    apply (simp add: vec_defs float_defs)
    done
qed

section \<open>Void samples\<close>

text \<open>
  C8. When the substrate branch is taken and the substrate's sample routine returns a void
  result, the layer returns that result as it is. Nothing computed after the void test
  takes part: the result is the same for every table, distribution, shadowing term,
  \<^verbatim>\<open>normalize\<close> and \<^verbatim>\<open>rcp\<close> that agree with the given ones on the two values read before
  the substrate is sampled, the table at \<open>cosThetaO\<close> and the reciprocal of
  \<open>substratePickProb\<close> that remaps the random number.
\<close>

theorem void_propagation:
  assumes "\<not> cosTheta self wo \<le> 0"
    and "\<not> ss < Ro_at ext self wo"
    and "is_void (substrate_res ext self wo s ss)"
  shows "MicrofacetSheenLayer_sample ext self wo s ss
           = bsdf_sample (substrate self) wo s
               ((ss - Ro_at ext self wo) * rcp ext (1 - Ro_at ext self wo))
       \<and> (\<forall>ext'. MicrofacetSheenAlbedoTable_eval ext' (cosTheta self wo) (roughness self)
                    = MicrofacetSheenAlbedoTable_eval ext (cosTheta self wo) (roughness self)
                \<and> rcp ext' (1 - Ro_at ext self wo) = rcp ext (1 - Ro_at ext self wo)
              \<longrightarrow> MicrofacetSheenLayer_sample ext' self wo s ss
                    = MicrofacetSheenLayer_sample ext self wo s ss)"
proof -
  have v: "reduce_max (weight_s (substrate_res ext self wo s ss)) \<le> 0"
    using assms(3) by (simp add: is_void_def)
  have here: "MicrofacetSheenLayer_sample ext self wo s ss = substrate_res ext self wo s ss"
    using assms(1,2) v by (rule sample_substrate_void)
  have there: "MicrofacetSheenLayer_sample ext' self wo s ss = substrate_res ext self wo s ss"
    if t: "MicrofacetSheenAlbedoTable_eval ext' (cosTheta self wo) (roughness self)
             = MicrofacetSheenAlbedoTable_eval ext (cosTheta self wo) (roughness self)"
      and r: "rcp ext' (1 - Ro_at ext self wo) = rcp ext (1 - Ro_at ext self wo)"
    for ext'
  proof -
    have Ro: "Ro_at ext' self wo = Ro_at ext self wo"
      using t by (simp add: Ro_at_def)
    have sr: "substrate_res ext' self wo s ss = substrate_res ext self wo s ss"
      using r by (simp add: substrate_res_def Ro)
    have "MicrofacetSheenLayer_sample ext' self wo s ss = substrate_res ext' self wo s ss"
      using assms(1,2) v by (intro sample_substrate_void) (simp_all add: Ro sr)
    then show ?thesis
      by (simp add: sr)
  qed
  show ?thesis
    using here there by (simp add: substrate_res_def)
qed

theorem void_propagation_witness:
  "\<not> cosTheta (sheen_over black_glass_ref (Fin 1)) (vec 0 0 1) \<le> 0
   \<and> \<not> Fin (3 / 4) < Ro_at ext0 (sheen_over black_glass_ref (Fin 1)) (vec 0 0 1)
   \<and> is_void (substrate_res ext0 (sheen_over black_glass_ref (Fin 1)) (vec 0 0 1) (0, 0) (Fin (3 / 4)))
   \<and> MicrofacetSheenLayer_sample ext0 (sheen_over black_glass_ref (Fin 1)) (vec 0 0 1) (0, 0) (Fin (3 / 4))
       = \<lparr>wi = vec 0 0 (- 1), weight_s = make_vec3f 0, pdf_s = PInf, type_s = BSDF_SPECULAR_TRANSMISSION\<rparr>
   \<and> MicrofacetSheenLayer_sample ext_nan_coat (sheen_over black_glass_ref (Fin 1)) (vec 0 0 1) (0, 0) (Fin (3 / 4))
       = \<lparr>wi = vec 0 0 (- 1), weight_s = make_vec3f 0, pdf_s = PInf, type_s = BSDF_SPECULAR_TRANSMISSION\<rparr>"
proof -
  let ?L = "sheen_over black_glass_ref (Fin 1)"
  have a: "\<not> cosTheta ?L (vec 0 0 1) \<le> 0"
    by (simp add: cosTheta_def input_defs vec_defs float_defs)
  have R: "Ro_at ext0 ?L (vec 0 0 1) = Fin (1 / 2)"
    by (simp add: sheen_terms input_defs float_defs)
  have b: "\<not> Fin (3 / 4) < Ro_at ext0 ?L (vec 0 0 1)"
    by (simp add: R)
  have q: "substrate_res ext0 ?L (vec 0 0 1) (0, 0) (Fin (3 / 4))
             = \<lparr>wi = vec 0 0 (- 1), weight_s = make_vec3f 0, pdf_s = PInf,
                type_s = BSDF_SPECULAR_TRANSMISSION\<rparr>"
    unfolding substrate_res_def R
    by (simp add: ThinDielectric_sample_def input_defs vec_defs float_defs Let_def)
  have c: "is_void (substrate_res ext0 ?L (vec 0 0 1) (0, 0) (Fin (3 / 4)))"
    unfolding q by (simp add: is_void_def vec_defs float_defs)
  have t: "MicrofacetSheenAlbedoTable_eval ext_nan_coat (cosTheta ?L (vec 0 0 1)) (roughness ?L)
             = MicrofacetSheenAlbedoTable_eval ext0 (cosTheta ?L (vec 0 0 1)) (roughness ?L)"
    by (simp add: ext_nan_coat_def)
  have r: "rcp ext_nan_coat (1 - Ro_at ext0 ?L (vec 0 0 1)) = rcp ext0 (1 - Ro_at ext0 ?L (vec 0 0 1))"
    by (simp add: ext_nan_coat_def)
  show ?thesis
    using a b c t r void_propagation [OF a b c]
    by (simp add: q [unfolded substrate_res_def])
qed

section \<open>The thin dielectric is not void where the exponential is positive\<close>

text \<open>
  C10. The thin dielectric's sample routine has no rejection, also for \<open>wo\<close> at or below
  the horizon. Its reflection branch returns the weight \<open>(1, 1, 1)\<close>, which is not void.
  Its transmission branch returns \<open>expf (attenuation * rcp cosThetaT)\<close>, which is positive
  in every channel, and then not void, where \<open>expf\<close> is positive at the three arguments.
\<close>

theorem thin_dielectric_sample_not_void:
  assumes "fresnelDielectricEx ext (max_f (dot wo (getN (super_td self))) 0) (eta self) = (F, cosThetaT)"
  shows "(ss \<le> F \<longrightarrow>
            weight_s (ThinDielectric_sample ext self wo s ss) = make_vec3f 1
          \<and> 0 < reduce_max (weight_s (ThinDielectric_sample ext self wo s ss))
          \<and> \<not> is_void (ThinDielectric_sample ext self wo s ss))
       \<and> (\<not> ss \<le> F
            \<and> 0 < expf ext (vec_x (attenuation self) * rcp ext cosThetaT)
            \<and> 0 < expf ext (vec_y (attenuation self) * rcp ext cosThetaT)
            \<and> 0 < expf ext (vec_z (attenuation self) * rcp ext cosThetaT) \<longrightarrow>
            0 < vec_x (weight_s (ThinDielectric_sample ext self wo s ss))
          \<and> 0 < vec_y (weight_s (ThinDielectric_sample ext self wo s ss))
          \<and> 0 < vec_z (weight_s (ThinDielectric_sample ext self wo s ss))
          \<and> 0 < reduce_max (weight_s (ThinDielectric_sample ext self wo s ss))
          \<and> \<not> is_void (ThinDielectric_sample ext self wo s ss))"
proof -
  have refl: "weight_s (ThinDielectric_sample ext self wo s ss) = make_vec3f 1" if "ss \<le> F"
    using assms that by (simp add: ThinDielectric_sample_def Let_def)
  have one: "0 < reduce_max (make_vec3f 1)"
    by (simp add: vec_defs float_defs)
  have trans: "weight_s (ThinDielectric_sample ext self wo s ss)
                 = expf_v ext (mul_vf (attenuation self) (rcp ext cosThetaT))" if "\<not> ss \<le> F"
    using assms that by (simp add: ThinDielectric_sample_def Let_def)
  have pos: "0 < reduce_max v" if "0 < vec_x v" "0 < vec_y v" "0 < vec_z v" for v
    using that by (cases "vec_x v"; cases "vec_y v"; cases "vec_z v") (auto simp: vec_defs float_defs)
  have nv: "\<not> is_void r" if "0 < reduce_max (weight_s r)" for r
    using that by (simp add: is_void_def float_less_not_le)
  show ?thesis
    using refl one trans pos nv by (simp add: expf_v_def mul_vf_def)
qed

theorem thin_dielectric_sample_not_void_witness:
  "fresnelDielectricEx ext0 (max_f (dot (vec 0 0 1) (getN (super_td glass))) 0) (eta glass)
     = (Fin (1 / 25), Fin 1)
   \<and> Fin (1 / 100) \<le> Fin (1 / 25)
   \<and> \<not> is_void (ThinDielectric_sample ext0 glass (vec 0 0 1) (0, 0) (Fin (1 / 100)))
   \<and> \<not> Fin (1 / 2) \<le> Fin (1 / 25)
   \<and> 0 < expf ext0 (vec_x (attenuation glass) * rcp ext0 (Fin 1))
   \<and> 0 < expf ext0 (vec_y (attenuation glass) * rcp ext0 (Fin 1))
   \<and> 0 < expf ext0 (vec_z (attenuation glass) * rcp ext0 (Fin 1))
   \<and> 0 < reduce_max (weight_s (ThinDielectric_sample ext0 glass (vec 0 0 1) (0, 0) (Fin (1 / 2))))
   \<and> \<not> is_void (ThinDielectric_sample ext0 glass (vec 0 0 1) (0, 0) (Fin (1 / 2)))"
proof -
  have f: "fresnelDielectricEx ext0 (max_f (dot (vec 0 0 1) (getN (super_td glass))) 0) (eta glass)
             = (Fin (1 / 25), Fin 1)"
    by (simp add: input_defs vec_defs float_defs Let_def)
  have e: "0 < expf ext0 (c (attenuation glass) * rcp ext0 (Fin 1))"
    if "c = vec_x \<or> c = vec_y \<or> c = vec_z" for c
    using that by (auto simp: input_defs vec_defs float_defs)
  show ?thesis
    using f e [of vec_x] e [of vec_y] e [of vec_z]
      thin_dielectric_sample_not_void [OF f, where ss = "Fin (1 / 100)" and s = "(0, 0)"]
      thin_dielectric_sample_not_void [OF f, where ss = "Fin (1 / 2)" and s = "(0, 0)"]
    by simp
qed

text \<open>
  Glass with a black attenuation colour, sampled along the normal with \<open>u = 1/2\<close> above
  the reflectance \<open>1/25\<close>: the transmission branch returns the weight
  \<open>expf (- inf) = 0\<close> in every channel, a void sample.
\<close>

theorem thin_dielectric_black_glass_void:
  "ThinDielectric_sample ext0 black_glass (vec 0 0 1) (0, 0) (Fin (1 / 2))
     = \<lparr>wi = vec 0 0 (- 1), weight_s = make_vec3f 0, pdf_s = PInf, type_s = BSDF_SPECULAR_TRANSMISSION\<rparr>
   \<and> is_void (ThinDielectric_sample ext0 black_glass (vec 0 0 1) (0, 0) (Fin (1 / 2)))"
  by (simp add: ThinDielectric_sample_def input_defs vec_defs float_defs Let_def)

section \<open>Arithmetic that rounding leaves alone\<close>

text \<open>
  The remaining theorems use the arithmetic through these facts only. Each of them holds
  of binary32 as it does here: they concern NaN, the infinities and the order, the signs
  of sums and products, products with zero and one, sums with zero, and the commutativity
  of the product, and none of them equates a rounded result with an exact one. A
  hypothesis that a product or a sum is positive, or is zero only with a factor, is put
  on the product or sum that the routine computes, so that an input at which binary32
  underflows does not meet it.
\<close>

lemma float_nan_absorbs [simp]: "a + NaN = NaN" "NaN + a = NaN" "a * NaN = NaN" "NaN * a = NaN"
  by (cases a; simp)+


lemma float_add_zero [simp]: "0 + a = a" "a + 0 = (a::float)"
  by (cases a; simp add: zero_float_def)+

lemma float_mult_one [simp]: "1 * a = a" "a * 1 = (a::float)"
  by (cases a; simp add: one_float_def)+

lemma float_minus_zero [simp]: "a - 0 = (a::float)"
  by (cases a; simp add: float_defs)

lemma float_mult_zero: "isfinite a \<Longrightarrow> a * 0 = 0" "isfinite a \<Longrightarrow> 0 * a = 0"
  by (cases a; simp add: zero_float_def)+

lemma float_mult_zero_nonneg: "0 \<le> a * 0 \<Longrightarrow> a * 0 = (0::float)"
  by (cases a) (simp_all add: zero_float_def)

lemma min_f_same [simp]: "min_f a a = a"
  by (simp add: min_f_def)

lemma min_f_zero: "0 \<le> b \<Longrightarrow> min_f 0 b = 0"
  by (cases b) (auto simp: float_defs)

lemma float_pos_add_nonneg: "0 < a \<Longrightarrow> 0 \<le> b \<Longrightarrow> a + b \<noteq> (0::float)"
  by (cases a; cases b) (auto simp: zero_float_def)

lemma float_one_minus_nonneg: "a \<le> 1 \<Longrightarrow> 0 \<le> 1 - (a::float)"
  by (cases a) (auto simp: float_defs)


lemma float_mult_nonneg: "0 \<le> x \<Longrightarrow> 0 \<le> y \<Longrightarrow> 0 \<le> x * y \<or> x * y = NaN"
  by (cases x; cases y) (auto simp: zero_float_def)

lemma float_pos_add_product:
  assumes "0 < a" and "0 \<le> x" and "0 \<le> y"
  shows "a + x * y \<noteq> (0::float)"
proof (cases "x * y = NaN")
  case True
  then show ?thesis
    by (simp add: zero_float_def)
next
  case False
  then have "0 \<le> x * y"
    using float_mult_nonneg [OF assms(2,3)] by simp
  with assms(1) show ?thesis
    by (rule float_pos_add_nonneg)
qed

lemma zero_times_inf: "0 * t * PInf = NaN"
  by (cases t) (simp_all add: zero_float_def)

lemma zero_vec_times_inf: "mul_vf (mul_vf (make_vec3f 0) t) PInf = make_vec3f NaN"
  by (simp add: mul_vf_def make_vec3f_def zero_times_inf)

lemma isfinite_unit_interval: "0 \<le> a \<Longrightarrow> a \<le> 1 \<Longrightarrow> isfinite a"
  by (cases a) (auto simp: float_defs)

lemma isfinite_one_minus: "isfinite a \<Longrightarrow> isfinite (1 - a)"
  by (cases a) (auto simp: float_defs)

lemma isfinite_min_f: "isfinite a \<Longrightarrow> isfinite b \<Longrightarrow> isfinite (min_f a b)"
  by (simp add: min_f_def)

lemma isfinite_zero [simp]: "isfinite 0"
  by (simp add: zero_float_def)

lemma mul_vf_one [simp]: "mul_vf a 1 = a"
  by (simp add: mul_vf_def)

lemma add_vv_zero [simp]: "add_vv (make_vec3f 0) a = a"
  by (simp add: add_vv_def make_vec3f_def)

lemma mul_vf_zero: "isfinite_v a \<Longrightarrow> mul_vf a 0 = make_vec3f 0"
  by (simp add: mul_vf_def make_vec3f_def isfinite_v_def float_mult_zero)

lemma zero_mul_vf: "isfinite b \<Longrightarrow> mul_vf (make_vec3f 0) b = make_vec3f 0"
  by (simp add: mul_vf_def make_vec3f_def float_mult_zero)


lemma coat_value_zero_weight:
  assumes "weight self = 0" and "isfinite_v (coat_value ext self wo wi')"
  shows "coat_value ext self wo wi' = make_vec3f 0"
proof -
  define X where "X = SheenDistribution_eval ext (microfacet self)
                        (dot (normalize_v ext (add_vv wo wi')) (getN (super self)))
                      * evalG2 ext (microfacet self) (cosTheta self wo) (cosTheta self wi')
                          (dot wo (normalize_v ext (add_vv wo wi')))
                          (dot wi' (normalize_v ext (add_vv wo wi')))
                      * rcp ext (Fin 4 * cosTheta self wo)"
  have cv: "coat_value ext self wo wi' = mul_vf (R self) (X * 0)"
    using assms(1) by (simp add: coat_value_def X_def Let_def)
  have ch: "a * (X * 0) = 0" if "isfinite (a * (X * 0))" for a
    using that by (cases a; cases X) (auto simp: zero_float_def)
  show ?thesis
    using assms(2) unfolding cv
    by (simp add: isfinite_v_def mul_vf_def make_vec3f_def ch)
qed

text \<open>With blend weight zero the two scaled lookups are zero and nothing is attenuated.\<close>

lemma zero_weight_terms:
  assumes "weight self = 0" and "0 \<le> Ro_at ext self wo" and "0 \<le> Ri_at ext self wi'"
  shows "Ro_at ext self wo = 0" and "Ri_at ext self wi' = 0" and "T_at ext self wo wi' = 1"
proof -
  show Ro: "Ro_at ext self wo = 0"
    using assms(2) unfolding Ro_at_def assms(1) by (rule float_mult_zero_nonneg)
  show Ri: "Ri_at ext self wi' = 0"
    using assms(3) unfolding Ri_at_def assms(1) by (rule float_mult_zero_nonneg)
  show "T_at ext self wo wi' = 1"
    by (simp add: T_at_def Ro Ri)
qed

section \<open>The invariant of evaluation results\<close>

text \<open>
  C6. A zero density comes with a zero value: for the thin dielectric's evaluation always,
  and for the layer's evaluation under these hypotheses. The substrate's result at the
  same directions has the property and a finite value. The scaled lookups \<open>Ro\<close> and \<open>Ri\<close>,
  as the routine computes them, are in \<open>[0, 1]\<close>. For \<open>wi\<close> above the horizon, either the
  blend weight is zero and the uniform hemisphere density and the coat value are finite,
  or the product \<open>Ro * coatPdf\<close>, as computed, is positive and the substrate's density is
  not negative. For \<open>wi\<close> not above the horizon, the product of the substrate's density
  and \<open>1 - Ro\<close>, as computed, is zero only when one of its factors is.
\<close>

theorem eval_invariant:
  assumes sub: "pdf_e (bsdf_eval (substrate self) wo wi') = 0
                  \<longrightarrow> value_e (bsdf_eval (substrate self) wo wi') = make_vec3f 0"
    and subval: "isfinite_v (value_e (bsdf_eval (substrate self) wo wi'))"
    and Ro: "0 \<le> Ro_at ext self wo \<and> Ro_at ext self wo \<le> 1"
    and Ri: "0 \<le> Ri_at ext self wi' \<and> Ri_at ext self wi' \<le> 1"
    and above: "0 < cosTheta self wi'
                \<longrightarrow> weight self = 0 \<and> isfinite (uniformSampleHemispherePDF ext)
                      \<and> isfinite_v (coat_value ext self wo wi')
                    \<or> 0 < Ro_at ext self wo * uniformSampleHemispherePDF ext
                      \<and> 0 \<le> pdf_e (bsdf_eval (substrate self) wo wi')"
    and below: "\<not> 0 < cosTheta self wi'
                \<and> pdf_e (bsdf_eval (substrate self) wo wi') * (1 - Ro_at ext self wo) = 0
                \<longrightarrow> pdf_e (bsdf_eval (substrate self) wo wi') = 0 \<or> 1 - Ro_at ext self wo = 0"
  shows "(pdf_e (MicrofacetSheenLayer_eval ext self wo wi') = 0
            \<longrightarrow> value_e (MicrofacetSheenLayer_eval ext self wo wi') = make_vec3f 0)
       \<and> (pdf_e (ThinDielectric_eval td wo wi') = 0
            \<longrightarrow> value_e (ThinDielectric_eval td wo wi') = make_vec3f 0)"
proof -
  let ?sub = "bsdf_eval (substrate self) wo wi'"
  let ?Ro = "Ro_at ext self wo"
  let ?Ri = "Ri_at ext self wi'"
  let ?cp = "uniformSampleHemispherePDF ext"
  have Rofin: "isfinite ?Ro" and Rifin: "isfinite ?Ri"
    using Ro Ri by (simp_all add: isfinite_unit_interval)
  have Tfin: "isfinite (T_at ext self wo wi')"
    unfolding T_at_def using Rofin Rifin by (intro isfinite_min_f isfinite_one_minus)
  have layer: "value_e (MicrofacetSheenLayer_eval ext self wo wi') = make_vec3f 0"
    if z: "pdf_e (MicrofacetSheenLayer_eval ext self wo wi') = 0"
  proof (cases "cosTheta self wo \<le> 0")
    case True
    then show ?thesis
      by (simp add: eval_below make_BSDF_EvalRes_zero_def)
  next
    case up: False
    show ?thesis
    proof (cases "0 < cosTheta self wi'")
      case True
      have pdf: "?Ro * ?cp + (1 - ?Ro) * pdf_e ?sub = 0"
        using z by (simp add: eval_reflection [OF up True])
      have spp: "0 \<le> 1 - ?Ro"
        using Ro by (intro float_one_minus_nonneg) simp
      have "\<not> (0 < ?Ro * ?cp \<and> 0 \<le> pdf_e ?sub)"
        using float_pos_add_product [of "?Ro * ?cp" "1 - ?Ro" "pdf_e ?sub"] spp pdf by blast
      then have w0: "weight self = 0" and cpfin: "isfinite ?cp"
        and coat: "isfinite_v (coat_value ext self wo wi')"
        using above True by blast+
      have Ro0: "?Ro = 0" and T1: "T_at ext self wo wi' = 1"
        using zero_weight_terms [OF w0, of ext wo wi'] Ro Ri by simp_all
      have cz: "coat_value ext self wo wi' = make_vec3f 0"
        using w0 coat by (rule coat_value_zero_weight)
      have "0 * ?cp = 0"
        using cpfin by (rule float_mult_zero)
      then have "pdf_e ?sub = 0"
        using pdf by (simp add: Ro0)
      then have "value_e ?sub = make_vec3f 0"
        using sub by simp
      then show ?thesis
        by (simp add: eval_reflection [OF up True] cz T1)
    next
      case False
      have pdf: "pdf_e ?sub * (1 - ?Ro) = 0"
        using z by (simp add: eval_transmission [OF up False])
      then have "pdf_e ?sub = 0 \<or> 1 - ?Ro = 0"
        using below False by blast
      then show ?thesis
      proof
        assume "pdf_e ?sub = 0"
        then have "value_e ?sub = make_vec3f 0"
          using sub by simp
        then show ?thesis
          using Tfin by (simp add: eval_transmission [OF up False] zero_mul_vf)
      next
        assume s0: "1 - ?Ro = 0"
        have "0 \<le> 1 - ?Ri"
          using Ri by (intro float_one_minus_nonneg) simp
        then have "T_at ext self wo wi' = 0"
          unfolding T_at_def s0 by (rule min_f_zero)
        then show ?thesis
          using subval by (simp add: eval_transmission [OF up False] mul_vf_zero)
      qed
    qed
  qed
  show ?thesis
    using layer by (simp add: ThinDielectric_eval_def make_BSDF_EvalRes_zero_def)
qed


theorem eval_invariant_witness:
  "pdf_e (bsdf_eval (substrate (sheen_over glass_ref (Fin 0))) (vec 0 0 1) (vec 0 0 1)) = 0
   \<and> value_e (bsdf_eval (substrate (sheen_over glass_ref (Fin 0))) (vec 0 0 1) (vec 0 0 1)) = make_vec3f 0
   \<and> isfinite_v (value_e (bsdf_eval (substrate (sheen_over glass_ref (Fin 0))) (vec 0 0 1) (vec 0 0 1)))
   \<and> 0 \<le> Ro_at ext0 (sheen_over glass_ref (Fin 0)) (vec 0 0 1)
   \<and> Ro_at ext0 (sheen_over glass_ref (Fin 0)) (vec 0 0 1) \<le> 1
   \<and> 0 \<le> Ri_at ext0 (sheen_over glass_ref (Fin 0)) (vec 0 0 1)
   \<and> Ri_at ext0 (sheen_over glass_ref (Fin 0)) (vec 0 0 1) \<le> 1
   \<and> 0 < cosTheta (sheen_over glass_ref (Fin 0)) (vec 0 0 1)
   \<and> weight (sheen_over glass_ref (Fin 0)) = 0
   \<and> isfinite (uniformSampleHemispherePDF ext0)
   \<and> isfinite_v (coat_value ext0 (sheen_over glass_ref (Fin 0)) (vec 0 0 1) (vec 0 0 1))
   \<and> pdf_e (MicrofacetSheenLayer_eval ext0 (sheen_over glass_ref (Fin 0)) (vec 0 0 1) (vec 0 0 1)) = 0
   \<and> value_e (MicrofacetSheenLayer_eval ext0 (sheen_over glass_ref (Fin 0)) (vec 0 0 1) (vec 0 0 1))
       = make_vec3f 0
   \<and> pdf_e (ThinDielectric_eval glass (vec 0 0 1) (vec 0 0 1)) = 0
   \<and> value_e (ThinDielectric_eval glass (vec 0 0 1) (vec 0 0 1)) = make_vec3f 0"
proof -
  let ?L = "sheen_over glass_ref (Fin 0)"
  let ?sub = "bsdf_eval (substrate ?L) (vec 0 0 1) (vec 0 0 1)"
  have sub: "?sub = \<lparr>value_e = make_vec3f 0, pdf_e = 0\<rparr>"
    by (simp add: input_defs ThinDielectric_eval_def Let_def)
  have s1: "pdf_e ?sub = 0 \<longrightarrow> value_e ?sub = make_vec3f 0"
    by (simp add: sub)
  have s2: "isfinite_v (value_e ?sub)"
    unfolding sub by (simp add: isfinite_v_def vec_defs float_defs)
  have Ro: "0 \<le> Ro_at ext0 ?L (vec 0 0 1) \<and> Ro_at ext0 ?L (vec 0 0 1) \<le> 1"
    by (simp add: sheen_terms input_defs vec_defs float_defs)
  have Ri: "0 \<le> Ri_at ext0 ?L (vec 0 0 1) \<and> Ri_at ext0 ?L (vec 0 0 1) \<le> 1"
    by (simp add: sheen_terms input_defs vec_defs float_defs)
  have up: "0 < cosTheta ?L (vec 0 0 1)"
    by (simp add: cosTheta_def input_defs vec_defs float_defs)
  have w0: "weight ?L = 0"
    by (simp add: sheen_over_def zero_float_def)
  have cp: "isfinite (uniformSampleHemispherePDF ext0)"
    by (simp add: ext0_def)
  have cv: "isfinite_v (coat_value ext0 ?L (vec 0 0 1) (vec 0 0 1))"
    by (simp add: coat_value_def cosTheta_def isfinite_v_def input_defs vec_defs float_defs Let_def)
  have above: "0 < cosTheta ?L (vec 0 0 1)
               \<longrightarrow> weight ?L = 0 \<and> isfinite (uniformSampleHemispherePDF ext0)
                     \<and> isfinite_v (coat_value ext0 ?L (vec 0 0 1) (vec 0 0 1))
                   \<or> 0 < Ro_at ext0 ?L (vec 0 0 1) * uniformSampleHemispherePDF ext0 \<and> 0 \<le> pdf_e ?sub"
    using w0 cp cv by blast
  have below: "\<not> 0 < cosTheta ?L (vec 0 0 1)
               \<and> pdf_e ?sub * (1 - Ro_at ext0 ?L (vec 0 0 1)) = 0
               \<longrightarrow> pdf_e ?sub = 0 \<or> 1 - Ro_at ext0 ?L (vec 0 0 1) = 0"
    using up by blast
  have ev: "pdf_e (MicrofacetSheenLayer_eval ext0 ?L (vec 0 0 1) (vec 0 0 1)) = 0"
    by (simp add: MicrofacetSheenLayer_eval_def ThinDielectric_eval_def input_defs vec_defs float_defs Let_def)
  have td: "pdf_e (ThinDielectric_eval glass (vec 0 0 1) (vec 0 0 1)) = 0"
    by (simp add: ThinDielectric_eval_def make_BSDF_EvalRes_zero_def)
  have inv: "(pdf_e (MicrofacetSheenLayer_eval ext0 ?L (vec 0 0 1) (vec 0 0 1)) = 0
                \<longrightarrow> value_e (MicrofacetSheenLayer_eval ext0 ?L (vec 0 0 1) (vec 0 0 1)) = make_vec3f 0)
             \<and> (pdf_e (ThinDielectric_eval glass (vec 0 0 1) (vec 0 0 1)) = 0
                \<longrightarrow> value_e (ThinDielectric_eval glass (vec 0 0 1) (vec 0 0 1)) = make_vec3f 0)"
    by (rule eval_invariant [OF s1 s2 Ro Ri above below])
  have sp: "pdf_e ?sub = 0" and sv: "value_e ?sub = make_vec3f 0"
    by (simp_all add: sub)
  show ?thesis
    using sp sv s2 Ro Ri up w0 cp cv ev td inv by blast
qed

text \<open>
  A layer of blend weight one over glass, with a table that is zero, evaluated along the
  normal: the substrate's evaluation is the zero result and the table's values are in
  \<open>[0, 1]\<close>, the density \<open>Ro * coatPdf + (1 - Ro) * 0\<close> is zero, and the value is the coat's
  \<open>R * (D * G * rcp (4 * cosThetaO) * weight) = 1/4\<close> in every channel.
\<close>

theorem eval_zero_pdf_nonzero_value:
  "pdf_e (bsdf_eval (substrate (sheen_over glass_ref (Fin 1))) (vec 0 0 1) (vec 0 0 1)) = 0
   \<and> value_e (bsdf_eval (substrate (sheen_over glass_ref (Fin 1))) (vec 0 0 1) (vec 0 0 1)) = make_vec3f 0
   \<and> (\<forall>c r. 0 \<le> MicrofacetSheenAlbedoTable_eval ext_zero_table c r
            \<and> MicrofacetSheenAlbedoTable_eval ext_zero_table c r \<le> 1)
   \<and> pdf_e (MicrofacetSheenLayer_eval ext_zero_table (sheen_over glass_ref (Fin 1)) (vec 0 0 1) (vec 0 0 1)) = 0
   \<and> value_e (MicrofacetSheenLayer_eval ext_zero_table (sheen_over glass_ref (Fin 1)) (vec 0 0 1) (vec 0 0 1))
       = make_vec3f (Fin (1 / 4))
   \<and> make_vec3f (Fin (1 / 4)) \<noteq> make_vec3f 0"
  by (simp add: MicrofacetSheenLayer_eval_def ThinDielectric_eval_def input_defs vec_defs float_defs Let_def)

section \<open>A layer of blend weight zero\<close>




section \<open>The divisions of the sample routine\<close>

text \<open>
  C5. The sample routine guards no division. With \<open>wo\<close> above the horizon, the random
  number is remapped with \<open>rcp (1 - Ro)\<close> before the substrate is sampled, and every exit
  returns as weight a value times \<^verbatim>\<open>rcp\<close> of a denominator, whatever the denominator
  is: \<open>1 - Ro\<close> for a specular sample, the returned density \<open>(1 - Ro) * substratePdf\<close> for
  a direction at or below the horizon, and the returned density
  \<open>Ro * coatPdf + (1 - Ro) * substratePdf\<close> for any other direction. Finite results are
  not guaranteed: when the coat branch samples a direction at or below the horizon where
  the substrate evaluates to the zero result, with \<open>1 - Ro\<close> finite and \<open>rcp 0\<close> infinite,
  the returned density is zero and the returned weight is NaN in every channel.
\<close>

theorem sheen_sample_unguarded:
  assumes "0 < cosTheta self wo"
  shows "substrate_res ext self wo s ss
           = bsdf_sample (substrate self) wo s ((ss - Ro_at ext self wo) * rcp ext (1 - Ro_at ext self wo))
       \<and> (ss < Ro_at ext self wo \<and> cosTheta self (coat_wi ext self s) \<le> 0 \<longrightarrow>
            MicrofacetSheenLayer_sample ext self wo s ss
              = \<lparr>wi = coat_wi ext self s,
                 weight_s = mul_vf (mul_vf (value_e (bsdf_eval (substrate self) wo (coat_wi ext self s)))
                                           (T_at ext self wo (coat_wi ext self s)))
                                   (rcp ext ((1 - Ro_at ext self wo)
                                             * pdf_e (bsdf_eval (substrate self) wo (coat_wi ext self s)))),
                 pdf_s = (1 - Ro_at ext self wo) * pdf_e (bsdf_eval (substrate self) wo (coat_wi ext self s)),
                 type_s = BSDF_DIFFUSE_REFLECTION\<rparr>)
       \<and> (ss < Ro_at ext self wo \<and> \<not> cosTheta self (coat_wi ext self s) \<le> 0 \<longrightarrow>
            MicrofacetSheenLayer_sample ext self wo s ss
              = \<lparr>wi = coat_wi ext self s,
                 weight_s = mul_vf (add_vv (coat_value ext self wo (coat_wi ext self s))
                                           (mul_vf (value_e (bsdf_eval (substrate self) wo (coat_wi ext self s)))
                                                   (T_at ext self wo (coat_wi ext self s))))
                                   (rcp ext (Ro_at ext self wo * uniformSampleHemispherePDF ext
                                             + (1 - Ro_at ext self wo)
                                               * pdf_e (bsdf_eval (substrate self) wo (coat_wi ext self s)))),
                 pdf_s = Ro_at ext self wo * uniformSampleHemispherePDF ext
                         + (1 - Ro_at ext self wo) * pdf_e (bsdf_eval (substrate self) wo (coat_wi ext self s)),
                 type_s = BSDF_DIFFUSE_REFLECTION\<rparr>)
       \<and> (\<not> ss < Ro_at ext self wo \<and> \<not> is_void (substrate_res ext self wo s ss)
            \<and> type_s (substrate_res ext self wo s ss) AND BSDF_SPECULAR \<noteq> 0 \<longrightarrow>
            MicrofacetSheenLayer_sample ext self wo s ss
              = \<lparr>wi = wi (substrate_res ext self wo s ss),
                 weight_s = mul_vf (mul_vf (weight_s (substrate_res ext self wo s ss))
                                           (T_at ext self wo (wi (substrate_res ext self wo s ss))))
                                   (rcp ext (1 - Ro_at ext self wo)),
                 pdf_s = pdf_s (substrate_res ext self wo s ss),
                 type_s = type_s (substrate_res ext self wo s ss)\<rparr>)
       \<and> (\<not> ss < Ro_at ext self wo \<and> \<not> is_void (substrate_res ext self wo s ss)
            \<and> type_s (substrate_res ext self wo s ss) AND BSDF_SPECULAR = 0
            \<and> cosTheta self (wi (substrate_res ext self wo s ss)) \<le> 0 \<longrightarrow>
            MicrofacetSheenLayer_sample ext self wo s ss
              = \<lparr>wi = wi (substrate_res ext self wo s ss),
                 weight_s = mul_vf (mul_vf (mul_vf (weight_s (substrate_res ext self wo s ss))
                                                   (pdf_s (substrate_res ext self wo s ss)))
                                           (T_at ext self wo (wi (substrate_res ext self wo s ss))))
                                   (rcp ext ((1 - Ro_at ext self wo) * pdf_s (substrate_res ext self wo s ss))),
                 pdf_s = (1 - Ro_at ext self wo) * pdf_s (substrate_res ext self wo s ss),
                 type_s = type_s (substrate_res ext self wo s ss)\<rparr>)
       \<and> (\<not> ss < Ro_at ext self wo \<and> \<not> is_void (substrate_res ext self wo s ss)
            \<and> type_s (substrate_res ext self wo s ss) AND BSDF_SPECULAR = 0
            \<and> \<not> cosTheta self (wi (substrate_res ext self wo s ss)) \<le> 0 \<longrightarrow>
            MicrofacetSheenLayer_sample ext self wo s ss
              = \<lparr>wi = wi (substrate_res ext self wo s ss),
                 weight_s = mul_vf (add_vv (coat_value ext self wo (wi (substrate_res ext self wo s ss)))
                                           (mul_vf (mul_vf (weight_s (substrate_res ext self wo s ss))
                                                           (pdf_s (substrate_res ext self wo s ss)))
                                                   (T_at ext self wo (wi (substrate_res ext self wo s ss)))))
                                   (rcp ext (Ro_at ext self wo * uniformSampleHemispherePDF ext
                                             + (1 - Ro_at ext self wo) * pdf_s (substrate_res ext self wo s ss))),
                 pdf_s = Ro_at ext self wo * uniformSampleHemispherePDF ext
                         + (1 - Ro_at ext self wo) * pdf_s (substrate_res ext self wo s ss),
                 type_s = type_s (substrate_res ext self wo s ss)\<rparr>)
       \<and> (ss < Ro_at ext self wo \<and> cosTheta self (coat_wi ext self s) \<le> 0
            \<and> bsdf_eval (substrate self) wo (coat_wi ext self s) = make_BSDF_EvalRes_zero
            \<and> isfinite (1 - Ro_at ext self wo) \<and> rcp ext 0 = PInf \<longrightarrow>
            pdf_s (MicrofacetSheenLayer_sample ext self wo s ss) = 0
            \<and> weight_s (MicrofacetSheenLayer_sample ext self wo s ss) = make_vec3f NaN)"
proof -
  let ?Ro = "Ro_at ext self wo"
  let ?r = "substrate_res ext self wo s ss"
  let ?c = "coat_wi ext self s"
  let ?res = "MicrofacetSheenLayer_sample ext self wo s ss"
  have up: "\<not> cosTheta self wo \<le> 0"
    using assms by (rule float_less_not_le)
  have remap: "?r = bsdf_sample (substrate self) wo s ((ss - ?Ro) * rcp ext (1 - ?Ro))"
    by (simp add: substrate_res_def)
  have ct: "ss < ?Ro \<Longrightarrow> cosTheta self ?c \<le> 0 \<Longrightarrow>
            ?res = \<lparr>wi = ?c,
                     weight_s = mul_vf (mul_vf (value_e (bsdf_eval (substrate self) wo ?c)) (T_at ext self wo ?c))
                                       (rcp ext ((1 - ?Ro) * pdf_e (bsdf_eval (substrate self) wo ?c))),
                     pdf_s = (1 - ?Ro) * pdf_e (bsdf_eval (substrate self) wo ?c),
                     type_s = BSDF_DIFFUSE_REFLECTION\<rparr>"
    using up by (simp add: sample_coat exit_transmission diffuse_not_specular)
  have cr: "ss < ?Ro \<Longrightarrow> \<not> cosTheta self ?c \<le> 0 \<Longrightarrow>
            ?res = \<lparr>wi = ?c,
                     weight_s = mul_vf (add_vv (coat_value ext self wo ?c)
                                               (mul_vf (value_e (bsdf_eval (substrate self) wo ?c))
                                                       (T_at ext self wo ?c)))
                                       (rcp ext (?Ro * uniformSampleHemispherePDF ext
                                                 + (1 - ?Ro) * pdf_e (bsdf_eval (substrate self) wo ?c))),
                     pdf_s = ?Ro * uniformSampleHemispherePDF ext
                             + (1 - ?Ro) * pdf_e (bsdf_eval (substrate self) wo ?c),
                     type_s = BSDF_DIFFUSE_REFLECTION\<rparr>"
    using up by (simp add: sample_coat exit_reflection diffuse_not_specular)
  have sp: "\<not> ss < ?Ro \<Longrightarrow> \<not> is_void ?r \<Longrightarrow> type_s ?r AND BSDF_SPECULAR \<noteq> 0 \<Longrightarrow>
            ?res = \<lparr>wi = wi ?r,
                     weight_s = mul_vf (mul_vf (weight_s ?r) (T_at ext self wo (wi ?r))) (rcp ext (1 - ?Ro)),
                     pdf_s = pdf_s ?r,
                     type_s = type_s ?r\<rparr>"
    using up by (simp add: sample_substrate exit_specular is_void_def)
  have st: "\<not> ss < ?Ro \<Longrightarrow> \<not> is_void ?r \<Longrightarrow> type_s ?r AND BSDF_SPECULAR = 0 \<Longrightarrow>
            cosTheta self (wi ?r) \<le> 0 \<Longrightarrow>
            ?res = \<lparr>wi = wi ?r,
                     weight_s = mul_vf (mul_vf (mul_vf (weight_s ?r) (pdf_s ?r)) (T_at ext self wo (wi ?r)))
                                       (rcp ext ((1 - ?Ro) * pdf_s ?r)),
                     pdf_s = (1 - ?Ro) * pdf_s ?r,
                     type_s = type_s ?r\<rparr>"
    using up by (simp add: sample_substrate exit_transmission is_void_def)
  have sr: "\<not> ss < ?Ro \<Longrightarrow> \<not> is_void ?r \<Longrightarrow> type_s ?r AND BSDF_SPECULAR = 0 \<Longrightarrow>
            \<not> cosTheta self (wi ?r) \<le> 0 \<Longrightarrow>
            ?res = \<lparr>wi = wi ?r,
                     weight_s = mul_vf (add_vv (coat_value ext self wo (wi ?r))
                                               (mul_vf (mul_vf (weight_s ?r) (pdf_s ?r))
                                                       (T_at ext self wo (wi ?r))))
                                       (rcp ext (?Ro * uniformSampleHemispherePDF ext + (1 - ?Ro) * pdf_s ?r)),
                     pdf_s = ?Ro * uniformSampleHemispherePDF ext + (1 - ?Ro) * pdf_s ?r,
                     type_s = type_s ?r\<rparr>"
    using up by (simp add: sample_substrate exit_reflection is_void_def)
  have nan: "pdf_s ?res = 0 \<and> weight_s ?res = make_vec3f NaN"
    if c: "ss < ?Ro" and h: "cosTheta self ?c \<le> 0"
      and z: "bsdf_eval (substrate self) wo ?c = make_BSDF_EvalRes_zero"
      and f: "isfinite (1 - ?Ro)" and i: "rcp ext 0 = PInf"
  proof -
    have d: "(1 - ?Ro) * 0 = 0"
      using f by (rule float_mult_zero)
    show ?thesis
      by (simp add: ct [OF c h] z make_BSDF_EvalRes_zero_def d i zero_vec_times_inf)
  qed
  show ?thesis
    using remap ct cr sp st sr nan by blast
qed


theorem sheen_sample_unguarded_witness:
  "0 < cosTheta (sheen_over translucent_ref (Fin 1)) (vec 0 0 1)
   \<and> 0 < cosTheta (sheen_over glass_ref (Fin 1)) (vec 0 0 1)
   \<and> 0 < cosTheta (sheen_over matte_ref (Fin 1)) (vec 0 0 1)
   \<and> Fin (1 / 4) < Ro_at ext0 (sheen_over translucent_ref (Fin 1)) (vec 0 0 1)
   \<and> cosTheta (sheen_over translucent_ref (Fin 1)) (coat_wi ext0 (sheen_over translucent_ref (Fin 1)) (0, 0)) \<le> 0
   \<and> MicrofacetSheenLayer_sample ext0 (sheen_over translucent_ref (Fin 1)) (vec 0 0 1) (0, 0) (Fin (1 / 4))
       = \<lparr>wi = vec 1 0 0, weight_s = make_vec3f 1, pdf_s = Fin (1 / 4), type_s = BSDF_DIFFUSE_REFLECTION\<rparr>
   \<and> \<not> Fin (3 / 4) < Ro_at ext0 (sheen_over translucent_ref (Fin 1)) (vec 0 0 1)
   \<and> substrate_res ext0 (sheen_over translucent_ref (Fin 1)) (vec 0 0 1) (0, 0) (Fin (3 / 4))
       = \<lparr>wi = vec 0 0 (- 1), weight_s = make_vec3f 1, pdf_s = Fin (1 / 2),
          type_s = BSDF_DIFFUSE_TRANSMISSION\<rparr>
   \<and> \<not> is_void (substrate_res ext0 (sheen_over translucent_ref (Fin 1)) (vec 0 0 1) (0, 0) (Fin (3 / 4)))
   \<and> BSDF_DIFFUSE_TRANSMISSION AND BSDF_SPECULAR = 0
   \<and> cosTheta (sheen_over translucent_ref (Fin 1)) (vec 0 0 (- 1)) \<le> 0
   \<and> MicrofacetSheenLayer_sample ext0 (sheen_over translucent_ref (Fin 1)) (vec 0 0 1) (0, 0) (Fin (3 / 4))
       = \<lparr>wi = vec 0 0 (- 1), weight_s = make_vec3f 1, pdf_s = Fin (1 / 4),
          type_s = BSDF_DIFFUSE_TRANSMISSION\<rparr>
   \<and> \<not> Fin (3 / 4) < Ro_at ext0 (sheen_over glass_ref (Fin 1)) (vec 0 0 1)
   \<and> substrate_res ext0 (sheen_over glass_ref (Fin 1)) (vec 0 0 1) (0, 0) (Fin (3 / 4))
       = \<lparr>wi = vec 0 0 (- 1), weight_s = make_vec3f 1, pdf_s = PInf, type_s = BSDF_SPECULAR_TRANSMISSION\<rparr>
   \<and> \<not> is_void (substrate_res ext0 (sheen_over glass_ref (Fin 1)) (vec 0 0 1) (0, 0) (Fin (3 / 4)))
   \<and> BSDF_SPECULAR_TRANSMISSION AND BSDF_SPECULAR \<noteq> 0
   \<and> MicrofacetSheenLayer_sample ext0 (sheen_over glass_ref (Fin 1)) (vec 0 0 1) (0, 0) (Fin (3 / 4))
       = \<lparr>wi = vec 0 0 (- 1), weight_s = make_vec3f 1, pdf_s = PInf, type_s = BSDF_SPECULAR_TRANSMISSION\<rparr>
   \<and> Fin (1 / 4) < Ro_at ext0 (sheen_over glass_ref (Fin 1)) (vec 0 0 1)
   \<and> cosTheta (sheen_over glass_ref (Fin 1)) (coat_wi ext0 (sheen_over glass_ref (Fin 1)) (0, 0)) \<le> 0
   \<and> bsdf_eval (substrate (sheen_over glass_ref (Fin 1))) (vec 0 0 1)
        (coat_wi ext0 (sheen_over glass_ref (Fin 1)) (0, 0)) = make_BSDF_EvalRes_zero
   \<and> isfinite (1 - Ro_at ext0 (sheen_over glass_ref (Fin 1)) (vec 0 0 1))
   \<and> rcp ext0 0 = PInf
   \<and> pdf_s (MicrofacetSheenLayer_sample ext0 (sheen_over glass_ref (Fin 1)) (vec 0 0 1) (0, 0) (Fin (1 / 4))) = 0
   \<and> weight_s (MicrofacetSheenLayer_sample ext0 (sheen_over glass_ref (Fin 1)) (vec 0 0 1) (0, 0) (Fin (1 / 4)))
       = make_vec3f NaN
   \<and> \<not> Fin (3 / 4) < Ro_at ext0 (sheen_over matte_ref (Fin 1)) (vec 0 0 1)
   \<and> substrate_res ext0 (sheen_over matte_ref (Fin 1)) (vec 0 0 1) (0, 0) (Fin (3 / 4))
       = \<lparr>wi = vec 0 0 1, weight_s = make_vec3f 1, pdf_s = Fin (1 / 2), type_s = BSDF_DIFFUSE_REFLECTION\<rparr>
   \<and> \<not> is_void (substrate_res ext0 (sheen_over matte_ref (Fin 1)) (vec 0 0 1) (0, 0) (Fin (3 / 4)))
   \<and> BSDF_DIFFUSE_REFLECTION AND BSDF_SPECULAR = 0
   \<and> \<not> cosTheta (sheen_over matte_ref (Fin 1)) (vec 0 0 1) \<le> 0
   \<and> MicrofacetSheenLayer_sample ext0 (sheen_over matte_ref (Fin 1)) (vec 0 0 1) (0, 0) (Fin (3 / 4))
       = \<lparr>wi = vec 0 0 1,
          weight_s = mul_vf (make_vec3f (Fin (1 / 2)))
                            (rcp ext0 (Fin (1 / 2) * uniformSampleHemispherePDF ext0 + Fin (1 / 4))),
          pdf_s = Fin (1 / 2) * uniformSampleHemispherePDF ext0 + Fin (1 / 4),
          type_s = BSDF_DIFFUSE_REFLECTION\<rparr>"
proof -
  let ?Lt = "sheen_over translucent_ref (Fin 1)"
  let ?Lg = "sheen_over glass_ref (Fin 1)"
  let ?Lm = "sheen_over matte_ref (Fin 1)"
  let ?wo = "vec 0 0 1"
  have up: "0 < cosTheta (sheen_over sub (Fin 1)) ?wo" for sub
    by (simp add: cosTheta_def input_defs vec_defs float_defs)
  have R: "Ro_at ext0 (sheen_over sub (Fin 1)) wo = Fin (1 / 2)" for sub wo
    by (simp add: sheen_terms input_defs float_defs)
  have T: "T_at ext0 (sheen_over sub (Fin 1)) wo wi' = Fin (1 / 2)" for sub wo wi'
    by (simp add: sheen_terms input_defs float_defs)
  have lo: "Fin (1 / 4) < Fin (1 / 2)" and hi: "\<not> Fin (3 / 4) < Fin (1 / 2)"
    by simp_all
  have w: "coat_wi ext0 (sheen_over sub (Fin 1)) (0, 0) = vec 1 0 0" for sub
    by (simp add: coat_wi_def input_defs vec_defs float_defs)
  have d: "cosTheta (sheen_over sub (Fin 1)) (vec 1 0 0) \<le> 0" for sub
    by (simp add: cosTheta_def input_defs vec_defs float_defs)
  have dn: "cosTheta (sheen_over sub (Fin 1)) (vec 0 0 (- 1)) \<le> 0" for sub
    by (simp add: cosTheta_def input_defs vec_defs float_defs)
  have du: "\<not> cosTheta (sheen_over sub (Fin 1)) (vec 0 0 1) \<le> 0" for sub
    by (simp add: cosTheta_def input_defs vec_defs float_defs)
  have mt: "bsdf_eval (substrate ?Lt) wo wi' = \<lparr>value_e = make_vec3f (Fin (1 / 2)), pdf_e = Fin (1 / 2)\<rparr>"
    for wo wi'
    by (simp add: input_defs)
  have mg: "bsdf_eval (substrate ?Lg) wo wi' = make_BSDF_EvalRes_zero" for wo wi'
    by (simp add: input_defs ThinDielectric_eval_def Let_def)
  have qt: "substrate_res ext0 ?Lt wo s ss
              = \<lparr>wi = vec 0 0 (- 1), weight_s = make_vec3f 1, pdf_s = Fin (1 / 2),
                 type_s = BSDF_DIFFUSE_TRANSMISSION\<rparr>" for wo s ss
    by (simp add: substrate_res_def input_defs)
  have qm: "substrate_res ext0 ?Lm wo s ss
              = \<lparr>wi = vec 0 0 1, weight_s = make_vec3f 1, pdf_s = Fin (1 / 2),
                 type_s = BSDF_DIFFUSE_REFLECTION\<rparr>" for wo s ss
    by (simp add: substrate_res_def input_defs)
  have qg: "substrate_res ext0 ?Lg ?wo (0, 0) (Fin (3 / 4))
              = \<lparr>wi = vec 0 0 (- 1), weight_s = make_vec3f 1, pdf_s = PInf,
                 type_s = BSDF_SPECULAR_TRANSMISSION\<rparr>"
    unfolding substrate_res_def R
    by (simp add: ThinDielectric_sample_def input_defs vec_defs float_defs Let_def)
  have nv: "\<not> is_void \<lparr>wi = a, weight_s = make_vec3f 1, pdf_s = b, type_s = c\<rparr>" for a b c
    by (simp add: is_void_def vec_defs float_defs)
  have nt: "BSDF_DIFFUSE_TRANSMISSION AND BSDF_SPECULAR = 0"
    and nr: "BSDF_DIFFUSE_REFLECTION AND BSDF_SPECULAR = 0"
    and sp: "BSDF_SPECULAR_TRANSMISSION AND BSDF_SPECULAR \<noteq> 0"
    by (simp_all add: type_defs)
  have fin: "isfinite (1 - Fin (1 / 2))"
    by (simp add: float_defs)
  have r0: "rcp ext0 0 = PInf"
    by (simp add: ext0_def zero_float_def)
  have r: "rcp ext0 = rcp_exact"
    by (simp add: ext0_def)
  have cm: "coat_value ext0 ?Lm ?wo (vec 0 0 1) = make_vec3f (Fin (1 / 4))"
    by (simp add: coat_value_def cosTheta_def input_defs vec_defs float_defs Let_def)
  have half: "add_vv (make_vec3f (Fin (1 / 4))) (mul_vf (mul_vf (make_vec3f 1) (Fin (1 / 2))) (Fin (1 / 2)))
                = make_vec3f (Fin (1 / 2))"
    and quarter: "(1 - Fin (1 / 2)) * Fin (1 / 2) = Fin (1 / 4)"
    by (simp_all add: vec_defs float_defs)
  note t1 = sheen_sample_unguarded [OF up, where sub1 = translucent_ref and ext = ext0
      and s = "(0, 0)" and ss = "Fin (1 / 4)"]
  note t2 = sheen_sample_unguarded [OF up, where sub1 = translucent_ref and ext = ext0
      and s = "(0, 0)" and ss = "Fin (3 / 4)"]
  note t3 = sheen_sample_unguarded [OF up, where sub1 = glass_ref and ext = ext0
      and s = "(0, 0)" and ss = "Fin (3 / 4)"]
  note t4 = sheen_sample_unguarded [OF up, where sub1 = glass_ref and ext = ext0
      and s = "(0, 0)" and ss = "Fin (1 / 4)"]
  note t5 = sheen_sample_unguarded [OF up, where sub1 = matte_ref and ext = ext0
      and s = "(0, 0)" and ss = "Fin (3 / 4)"]
  have c1: "MicrofacetSheenLayer_sample ext0 ?Lt ?wo (0, 0) (Fin (1 / 4))
              = \<lparr>wi = vec 1 0 0, weight_s = make_vec3f 1, pdf_s = Fin (1 / 4),
                 type_s = BSDF_DIFFUSE_REFLECTION\<rparr>"
    using t1 lo d unfolding w mt R T r by (simp add: vec_defs float_defs)
  have c2: "MicrofacetSheenLayer_sample ext0 ?Lt ?wo (0, 0) (Fin (3 / 4))
              = \<lparr>wi = vec 0 0 (- 1), weight_s = make_vec3f 1, pdf_s = Fin (1 / 4),
                 type_s = BSDF_DIFFUSE_TRANSMISSION\<rparr>"
    using t2 hi dn nv nt unfolding qt R T r by (simp add: vec_defs float_defs)
  have c3: "MicrofacetSheenLayer_sample ext0 ?Lg ?wo (0, 0) (Fin (3 / 4))
              = \<lparr>wi = vec 0 0 (- 1), weight_s = make_vec3f 1, pdf_s = PInf,
                 type_s = BSDF_SPECULAR_TRANSMISSION\<rparr>"
    using t3 hi nv sp unfolding qg R T r by (simp add: vec_defs float_defs)
  have c4: "pdf_s (MicrofacetSheenLayer_sample ext0 ?Lg ?wo (0, 0) (Fin (1 / 4))) = 0
            \<and> weight_s (MicrofacetSheenLayer_sample ext0 ?Lg ?wo (0, 0) (Fin (1 / 4))) = make_vec3f NaN"
    using t4 lo d fin r0 unfolding w mg R by blast
  have c5: "MicrofacetSheenLayer_sample ext0 ?Lm ?wo (0, 0) (Fin (3 / 4))
              = \<lparr>wi = vec 0 0 1,
                 weight_s = mul_vf (make_vec3f (Fin (1 / 2)))
                                   (rcp ext0 (Fin (1 / 2) * uniformSampleHemispherePDF ext0 + Fin (1 / 4))),
                 pdf_s = Fin (1 / 2) * uniformSampleHemispherePDF ext0 + Fin (1 / 4),
                 type_s = BSDF_DIFFUSE_REFLECTION\<rparr>"
    using t5 hi du nv nr unfolding qm R T by (simp add: quarter half cm)
  show ?thesis
    unfolding w R qt qg qm mg
    using up lo hi d dn du nv nt nr sp fin r0 c1 c2 c3 c4 c5 by (intro conjI) simp_all
qed

text \<open>
  A layer of blend weight one over glass, sampled with \<open>u = 1/4\<close> below \<open>Ro = 1/2\<close> and the
  random numbers \<open>(0, 0)\<close>: the coat branch samples the horizon direction \<open>(1, 0, 0)\<close>, the
  substrate evaluates to zero there, the density is \<open>(1 - Ro) * 0 = 0\<close> and the weight is
  \<open>(0 * T) * rcp 0\<close>, which is NaN. Every input is finite.
\<close>

theorem sheen_sample_nan_weight:
  "MicrofacetSheenLayer_sample ext0 (sheen_over glass_ref (Fin 1)) (vec 0 0 1) (0, 0) (Fin (1 / 4))
     = \<lparr>wi = vec 1 0 0, weight_s = make_vec3f NaN, pdf_s = 0, type_s = BSDF_DIFFUSE_REFLECTION\<rparr>
   \<and> \<not> isfinite_v (weight_s (MicrofacetSheenLayer_sample ext0 (sheen_over glass_ref (Fin 1)) (vec 0 0 1)
                                 (0, 0) (Fin (1 / 4))))"
  by (simp add: MicrofacetSheenLayer_sample_def MicrofacetSheenLayer_sample_exit_def
      ThinDielectric_eval_def isfinite_v_def input_defs vec_defs float_defs type_defs Let_def)

section \<open>Consistency of sample and evaluation\<close>






end
